theory Spec2Isabelle
  imports Complex_Main "HOL-Library.AList"
begin

section \<open>Values, exceptions and the outside world\<close>

text \<open>
  A Python \<^verbatim>\<open>float\<close> is an IEEE double: \<open>Finite s m e\<close> is the number
  \<open>\<plusminus> m * 2 ^ e\<close> (negative when \<open>s\<close> holds), besides the two infinities and NaN.
\<close>

datatype pyfloat = Finite bool nat int | Infinity bool | NaN

text \<open>
  The collector is a Python program. Values that cross its boundaries (a decoded secret,
  a response body, the attributes of a log entry) are JSON values. A dictionary is an
  association list with distinct keys, in insertion order, as a Python \<^verbatim>\<open>dict\<close> is;
  \<^verbatim>\<open>d.get(k)\<close> is \<open>map_of d k\<close> and \<^verbatim>\<open>d[k] = v\<close> is \<open>AList.update k v d\<close>.
\<close>

datatype json =
    JNull
  | JBool bool
  | JInt int
  | JFloat pyfloat
  | JStr string
  | JArr "json list"
  | JObj "(string \<times> json) list"

type_synonym dict = "(string \<times> json) list"

text \<open>
  Exceptions are values. Each constructor is a Python exception class of the source or
  of a library it calls, carrying what \<^verbatim>\<open>str(e)\<close> shows; \<open>HTTPError\<close> also carries
  the status code and the body of its response, which \<^verbatim>\<open>send_logs\<close> reads.
\<close>

datatype py_error =
    ValueError string
  | AttributeError string
  | TypeError string
  | ZeroDivisionError string
  | OverflowError string
  | JSONDecodeError string
  | HTTPError int string string
  | RequestException string
  | ClientError string
  | DatabaseError string

fun str_exc :: "py_error \<Rightarrow> string" where
  "str_exc (ValueError m) = m"
| "str_exc (AttributeError m) = m"
| "str_exc (TypeError m) = m"
| "str_exc (ZeroDivisionError m) = m"
| "str_exc (OverflowError m) = m"
| "str_exc (JSONDecodeError m) = m"
| "str_exc (HTTPError code body m) = m"
| "str_exc (RequestException m) = m"
| "str_exc (ClientError m) = m"
| "str_exc (DatabaseError m) = m"

text \<open>
  What \<^verbatim>\<open>requests.post\<close> gives back: a response, or a transport failure (connection
  error, timeout, ...), which \<^verbatim>\<open>requests\<close> raises as a \<^verbatim>\<open>RequestException\<close> that is
  not an \<^verbatim>\<open>HTTPError\<close>.
\<close>

record response =
  status_code :: int
  reason :: string
  resp_url :: string
  resp_text :: string

datatype http_outcome = Response response | Raises string

datatype payload = TextBody string | JsonBody json

record request =
  req_url :: string
  req_token :: json
  req_content_type :: string
  req_timeout :: int
  req_data :: payload

text \<open>
  A row of \<^verbatim>\<open>pg_stat_activity\<close> as \<^verbatim>\<open>get_long_running_queries\<close> selects it
  (a \<^verbatim>\<open>RealDictCursor\<close> row). \<^verbatim>\<open>duration_seconds\<close> is cast to \<^verbatim>\<open>integer\<close> by
  the query.
\<close>

record query_row =
  pid :: int
  usename :: string
  datname :: string
  state :: string
  wait_event_type :: "string option"
  wait_event :: "string option"
  query_start :: string
  duration_seconds :: int
  query :: string
  backend_type :: string
  client_addr :: "string option"
  client_hostname :: "string option"
  application_name :: string

text \<open>
  The environment of one invocation, which the program reads but does not control:
  the process environment, Secrets Manager (\<^verbatim>\<open>get_secret_value\<close> raises, or gives a
  response whose \<^verbatim>\<open>SecretString\<close> is present or absent), the decoder \<^verbatim>\<open>json.loads\<close>, the database,
  the telemetry backend (the outcome of the \<open>k\<close>-th HTTP request of the invocation) and
  the two clocks (the \<open>k\<close>-th value of \<^verbatim>\<open>int(time.time() * 1000)\<close>, and of
  \<^verbatim>\<open>datetime.utcnow()\<close> in microseconds).
\<close>

record env =
  environ :: "string \<Rightarrow> string option"
  secretsmanager :: "string option \<Rightarrow> py_error + string option"
  json_loads :: "string \<Rightarrow> py_error + json"
  database :: "py_error + query_row list"
  http :: "nat \<Rightarrow> http_outcome"
  time_ms :: "nat \<Rightarrow> int"
  utcnow_us :: "nat \<Rightarrow> int"

text \<open>
  The mutable world: the heap of dictionaries that lists refer to (a Python list holds
  references, so a list of entries is a list of addresses), and what the invocation has
  done so far: clock reads, secrets fetched, database queries, HTTP requests issued.
\<close>

type_synonym addr = nat

record world =
  heap :: "addr \<Rightarrow> dict"
  next_addr :: addr
  time_reads :: nat
  utc_reads :: nat
  secret_fetches :: "string option list"
  db_queries :: nat
  requests :: "request list"

section \<open>Rendering integers\<close>

text \<open>\<^verbatim>\<open>str(n)\<close> for a Python integer: decimal digits, a minus sign when negative.\<close>

definition digit_char :: "nat \<Rightarrow> char" where
  "digit_char d = ''0123456789'' ! (d mod 10)"

function str_nat :: "nat \<Rightarrow> string" where
  "str_nat n = (if n < 10 then [digit_char n] else str_nat (n div 10) @ [digit_char (n mod 10)])"
  by pat_completeness auto
termination
  by (relation "measure id") auto

declare str_nat.simps [simp del]

definition str_int :: "int \<Rightarrow> string" where
  "str_int i = (if i < 0 then CHR ''-'' # str_nat (nat (- i)) else str_nat (nat i))"

text \<open>The message of the \<^verbatim>\<open>AttributeError\<close> for a missing attribute or method.\<close>

definition squote :: "string \<Rightarrow> string" where
  "squote s = [CHR 0x27] @ s @ [CHR 0x27]"

definition no_attribute :: "string \<Rightarrow> string \<Rightarrow> string" where
  "no_attribute ty attr = squote ty @ '' object has no attribute '' @ squote attr"

section \<open>The log forwarder (dynatrace/logs\_client.py)\<close>

record logs_client =
  lc_base_url :: string
  lc_api_token :: json
  lc_timeout :: int
  lc_batch_size :: int
  lc_ingest_url :: string

text \<open>\<^verbatim>\<open>s.rstrip(c)\<close> for a one-character argument.\<close>

definition rstrip :: "char \<Rightarrow> string \<Rightarrow> string" where
  "rstrip c s = rev (dropWhile (\<lambda>x. x = c) (rev s))"

text \<open>
  \<^verbatim>\<open>DynatraceLogsClient.__init__\<close>. The URL comes from \<^verbatim>\<open>os.environ.get\<close>, which
  may give \<^verbatim>\<open>None\<close>; \<^verbatim>\<open>None.rstrip\<close> raises.
\<close>

definition DynatraceLogsClient :: "string option \<Rightarrow> json \<Rightarrow> int \<Rightarrow> int \<Rightarrow> py_error + logs_client" where
  "DynatraceLogsClient environment_url api_token timeout batch_size =
     (case environment_url of
        None \<Rightarrow> Inl (AttributeError (no_attribute ''NoneType'' ''rstrip''))
      | Some u \<Rightarrow>
          Inr \<lparr>lc_base_url = rstrip CHR ''/'' u, lc_api_token = api_token, lc_timeout = timeout,
               lc_batch_size = batch_size,
               lc_ingest_url = rstrip CHR ''/'' u @ ''/api/v2/logs/ingest''\<rparr>)"

text \<open>
  \<^verbatim>\<open>range(0, n, step)\<close>: the indices \<open>0, step, 2 * step, ...\<close> below \<open>n\<close> for a
  positive step, nothing for a negative one (\<open>0 \<le> n\<close>), and \<^verbatim>\<open>ValueError\<close> for zero.
\<close>

function range_from :: "nat \<Rightarrow> nat \<Rightarrow> nat \<Rightarrow> nat list" where
  "range_from i n step = (if 0 < step \<and> i < n then i # range_from (i + step) n step else [])"
  by pat_completeness auto
termination
  by (relation "measure (\<lambda>(i, n, step). n - i)") auto

declare range_from.simps [simp del]

definition py_range :: "nat \<Rightarrow> int \<Rightarrow> py_error + nat list" where
  "py_range n step =
     (if step = 0 then Inl (ValueError ''range() arg 3 must not be zero'')
      else if step < 0 then Inr []
      else Inr (range_from 0 n (nat step)))"

text \<open>The two effects \<^verbatim>\<open>send_logs\<close> has on the world besides the heap.\<close>

definition read_time_ms :: "env \<Rightarrow> world \<Rightarrow> world \<times> int" where
  "read_time_ms e w = (w\<lparr>time_reads := Suc (time_reads w)\<rparr>, time_ms e (time_reads w))"

definition post :: "env \<Rightarrow> world \<Rightarrow> request \<Rightarrow> world \<times> http_outcome" where
  "post e w r = (w\<lparr>requests := requests w @ [r]\<rparr>, http e (length (requests w)))"

text \<open>
  \<^verbatim>\<open>Response.raise_for_status\<close> of the \<^verbatim>\<open>requests\<close> library: it raises
  \<^verbatim>\<open>HTTPError\<close> for a status code from 400 to 599 and returns for every other one.
\<close>

definition raise_for_status :: "response \<Rightarrow> py_error option" where
  "raise_for_status r =
     (if 400 \<le> status_code r \<and> status_code r < 500 then
        Some (HTTPError (status_code r) (resp_text r)
          (str_int (status_code r) @ '' Client Error: '' @ reason r @ '' for url: '' @ resp_url r))
      else if 500 \<le> status_code r \<and> status_code r < 600 then
        Some (HTTPError (status_code r) (resp_text r)
          (str_int (status_code r) @ '' Server Error: '' @ reason r @ '' for url: '' @ resp_url r))
      else None)"

text \<open>
  Lines 75 to 77: the entries of the batch, through their references, get the key
  \<^verbatim>\<open>timestamp\<close> when they do not have it.
\<close>

fun stamp_entries :: "(addr \<Rightarrow> dict) \<Rightarrow> int \<Rightarrow> addr list \<Rightarrow> (addr \<Rightarrow> dict)" where
  "stamp_entries h t [] = h"
| "stamp_entries h t (a # as) =
     stamp_entries
       (if map_of (h a) ''timestamp'' = None
        then h(a := AList.update ''timestamp'' (JInt t) (h a)) else h) t as"

text \<open>
  The handlers of lines 93 to 100: the string appended to \<^verbatim>\<open>errors\<close>.
\<close>

fun batch_error_msg :: "py_error \<Rightarrow> string" where
  "batch_error_msg (HTTPError code body m) = ''HTTP '' @ str_int code @ '': '' @ body"
| "batch_error_msg e = str_exc e"

text \<open>
  One iteration of the loop of \<^verbatim>\<open>send_logs\<close> (lines 71 to 100), at index \<open>i\<close>. The
  loop runs only for a positive batch size, where the slice
  \<^verbatim>\<open>log_entries[i : i + batch_size]\<close> is \<open>take batch_size (drop i log_entries)\<close>: a new
  list of the same references. The payload is the batch as \<^verbatim>\<open>json.dumps\<close> sees it,
  after stamping.
\<close>

fun send_batch ::
  "env \<Rightarrow> logs_client \<Rightarrow> addr list \<Rightarrow> nat \<Rightarrow> world \<times> nat \<times> string list \<Rightarrow> world \<times> nat \<times> string list" where
  "send_batch e self log_entries i (w, total_sent, errors) =
     (let batch = take (nat (lc_batch_size self)) (drop i log_entries);
          (w1, current_time_ms) = read_time_ms e w;
          w2 = w1\<lparr>heap := stamp_entries (heap w1) current_time_ms batch\<rparr>;
          (w3, out) = post e w2
            \<lparr>req_url = lc_ingest_url self, req_token = lc_api_token self,
             req_content_type = ''application/json; charset=utf-8'',
             req_timeout = lc_timeout self,
             req_data = JsonBody (JArr (map (\<lambda>a. JObj (heap w2 a)) batch))\<rparr>
      in (case out of
            Raises m \<Rightarrow> (w3, total_sent, errors @ [batch_error_msg (RequestException m)])
          | Response r \<Rightarrow>
              (case raise_for_status r of
                 None \<Rightarrow> (w3, total_sent + length batch, errors)
               | Some err \<Rightarrow> (w3, total_sent, errors @ [batch_error_msg err]))))"

text \<open>\<^verbatim>\<open>DynatraceLogsClient.send_logs\<close>.\<close>

definition send_logs :: "env \<Rightarrow> logs_client \<Rightarrow> world \<Rightarrow> addr list \<Rightarrow> world \<times> (py_error + dict)" where
  "send_logs e self w log_entries =
     (if log_entries = [] then (w, Inr [(''sent'', JInt 0)])
      else
        (case py_range (length log_entries) (lc_batch_size self) of
           Inl err \<Rightarrow> (w, Inl err)
         | Inr idxs \<Rightarrow>
             (case fold (send_batch e self log_entries) idxs (w, 0, []) of
                (w', total_sent, errors) \<Rightarrow>
                  (w', Inr ([(''sent'', JInt (int total_sent)),
                             (''total'', JInt (int (length log_entries)))]
                            @ (if errors \<noteq> [] then [(''errors'', JArr (map JStr errors))] else []))))))"

section \<open>Strings, numbers and truth values of Python\<close>

text \<open>\<^verbatim>\<open>sep.join(xs)\<close> and \<^verbatim>\<open>s.split(c)[0]\<close>.\<close>

fun join :: "string \<Rightarrow> string list \<Rightarrow> string" where
  "join sep [] = []"
| "join sep [x] = x"
| "join sep (x # y # ys) = x @ sep @ join sep (y # ys)"

definition split_first :: "char \<Rightarrow> string \<Rightarrow> string" where
  "split_first c s = takeWhile (\<lambda>x. x \<noteq> c) s"

text \<open>
  A string is a list of code points below 256 (the characters of Latin-1).
  \<^verbatim>\<open>repr(s)\<close> of a string, which the message of a failed \<^verbatim>\<open>int(s)\<close> quotes:
  single quotes unless the string has a single quote and no double quote; backslash,
  the quote and the characters that are not printable escaped (the control characters
  below 32 and from 127 to 159, the no-break space 160 and the soft hyphen 173).
\<close>

definition hex_char :: "nat \<Rightarrow> char" where
  "hex_char d = ''0123456789abcdef'' ! (d mod 16)"

definition repr_char :: "char \<Rightarrow> char \<Rightarrow> string" where
  "repr_char q c =
     (if c = CHR 0x5C then [CHR 0x5C, CHR 0x5C]
      else if c = q then [CHR 0x5C, q]
      else if c = CHR 0x09 then [CHR 0x5C, CHR ''t'']
      else if c = CHR 0x0A then [CHR 0x5C, CHR ''n'']
      else if c = CHR 0x0D then [CHR 0x5C, CHR ''r'']
      else if (of_char c :: nat) < 32 \<or> (127 \<le> (of_char c :: nat) \<and> (of_char c :: nat) \<le> 160)
              \<or> (of_char c :: nat) = 173
        then [CHR 0x5C, CHR ''x'', hex_char ((of_char c :: nat) div 16), hex_char (of_char c)]
      else [c])"

definition py_repr :: "string \<Rightarrow> string" where
  "py_repr s =
     (let q = (if CHR 0x27 \<in> set s \<and> CHR 0x22 \<notin> set s then CHR 0x22 else CHR 0x27)
      in [q] @ concat (map (repr_char q) s) @ [q])"

text \<open>
  \<^verbatim>\<open>int(s)\<close> for a string, base 10, as CPython 3.11 converts it. The two white
  space characters above 127 (NEL 133 and the no-break space 160) count as spaces; the
  white space that is skipped before and after the literal is the space and the
  characters 9 to 13. After an optional sign comes a run of digits and underscores; an
  underscore at its start or end, or two in a row, make the literal invalid. A run of
  more than 4300 digits exceeds the default limit of the interpreter. An empty run, or
  anything but white space after the run, makes the literal invalid. The message for
  an invalid literal shows at most 200 characters of the \<^verbatim>\<open>repr\<close> of the string.
\<close>

definition ascii_space :: "char \<Rightarrow> char" where
  "ascii_space c = (if (of_char c :: nat) = 133 \<or> (of_char c :: nat) = 160 then CHR '' '' else c)"

definition is_space :: "char \<Rightarrow> bool" where
  "is_space c = (let n = (of_char c :: nat) in (9 \<le> n \<and> n \<le> 13) \<or> n = 32)"

definition is_digit :: "char \<Rightarrow> bool" where
  "is_digit c = (let n = (of_char c :: nat) in 48 \<le> n \<and> n \<le> 57)"

definition digit_val :: "char \<Rightarrow> nat" where
  "digit_val c = (of_char c :: nat) - 48"

fun double_underscore :: "string \<Rightarrow> bool" where
  "double_underscore (c # d # cs) = ((c = CHR ''_'' \<and> d = CHR ''_'') \<or> double_underscore (d # cs))"
| "double_underscore cs = False"

definition py_int :: "string \<Rightarrow> py_error + int" where
  "py_int s =
     (let invalid = Inl (ValueError (''invalid literal for int() with base 10: '' @ take 200 (py_repr s)));
          t = dropWhile is_space (map ascii_space s);
          neg = (t \<noteq> [] \<and> hd t = CHR ''-'');
          u = (if t \<noteq> [] \<and> (hd t = CHR ''+'' \<or> hd t = CHR ''-'') then tl t else t);
          run = takeWhile (\<lambda>c. is_digit c \<or> c = CHR ''_'') u;
          rest = dropWhile (\<lambda>c. is_digit c \<or> c = CHR ''_'') u;
          ds = filter is_digit run
      in if run \<noteq> [] \<and> (hd run = CHR ''_'' \<or> last run = CHR ''_'' \<or> double_underscore run)
         then invalid
         else if 4300 < length ds
         then Inl (ValueError (''Exceeds the limit (4300 digits) for integer string conversion: value has ''
                     @ str_nat (length ds)
                     @ '' digits; use sys.set_int_max_str_digits() to increase the limit''))
         else if run = [] \<or> dropWhile is_space rest \<noteq> [] then invalid
         else Inr ((if neg then - 1 else 1) * int (foldl (\<lambda>acc c. 10 * acc + digit_val c) 0 ds)))"

text \<open>Truth values: what \<^verbatim>\<open>not v\<close> and \<^verbatim>\<open>a or b\<close> test.\<close>

fun float_truthy :: "pyfloat \<Rightarrow> bool" where
  "float_truthy (Finite s m e) = (m \<noteq> 0)"
| "float_truthy (Infinity s) = True"
| "float_truthy NaN = True"

fun truthy :: "json \<Rightarrow> bool" where
  "truthy JNull = False"
| "truthy (JBool b) = b"
| "truthy (JInt n) = (n \<noteq> 0)"
| "truthy (JFloat f) = float_truthy f"
| "truthy (JStr s) = (s \<noteq> [])"
| "truthy (JArr xs) = (xs \<noteq> [])"
| "truthy (JObj kvs) = (kvs \<noteq> [])"

text \<open>The name of the type of a value, as error messages show it.\<close>

fun type_name :: "json \<Rightarrow> string" where
  "type_name JNull = ''NoneType''"
| "type_name (JBool b) = ''bool''"
| "type_name (JInt n) = ''int''"
| "type_name (JFloat f) = ''float''"
| "type_name (JStr s) = ''str''"
| "type_name (JArr xs) = ''list''"
| "type_name (JObj kvs) = ''dict''"

text \<open>
  \<^verbatim>\<open>v.get(k, default)\<close>: only a dictionary has the method. \<^verbatim>\<open>v > 0\<close>: defined for
  numbers (a \<^verbatim>\<open>bool\<close> is an \<^verbatim>\<open>int\<close>), a \<^verbatim>\<open>TypeError\<close> otherwise.
\<close>

definition py_get :: "json \<Rightarrow> string \<Rightarrow> json \<Rightarrow> py_error + json" where
  "py_get v k dflt =
     (case v of
        JObj d \<Rightarrow> Inr (case map_of d k of None \<Rightarrow> dflt | Some x \<Rightarrow> x)
      | _ \<Rightarrow> Inl (AttributeError (no_attribute (type_name v) ''get'')))"

fun float_pos :: "pyfloat \<Rightarrow> bool" where
  "float_pos (Finite s m e) = (\<not> s \<and> m \<noteq> 0)"
| "float_pos (Infinity s) = (\<not> s)"
| "float_pos NaN = False"

definition gt_zero :: "json \<Rightarrow> py_error + bool" where
  "gt_zero v =
     (case v of
        JInt n \<Rightarrow> Inr (0 < n)
      | JBool b \<Rightarrow> Inr b
      | JFloat f \<Rightarrow> Inr (float_pos f)
      | _ \<Rightarrow> Inl (TypeError (squote ''>'' @ '' not supported between instances of ''
                               @ squote (type_name v) @ '' and '' @ squote ''int'')))"


section \<open>Floating point: true division and the format \<^verbatim>\<open>.2f\<close>\<close>

text \<open>
  The nearest integer to \<open>a / b\<close> for \<open>b > 0\<close>, a tie going to the even neighbour.
\<close>

definition round_half_even :: "nat \<Rightarrow> nat \<Rightarrow> nat" where
  "round_half_even a b =
     (let q = a div b; r = a mod b
      in if 2 * r < b then q else if b < 2 * r then q + 1 else if even q then q else q + 1)"

text \<open>The number of binary digits of a natural number.\<close>

function bit_length :: "nat \<Rightarrow> nat" where
  "bit_length n = (if n = 0 then 0 else Suc (bit_length (n div 2)))"
  by pat_completeness auto
termination
  by (relation "measure id") auto

declare bit_length.simps [simp del]

text \<open>
  \<open>\<lfloor>log\<^sub>2 (p / q)\<rfloor>\<close> for positive \<open>p\<close> and \<open>q\<close>: the difference \<open>k\<close> of the bit lengths,
  or one less, whichever has \<open>2 ^ k \<le> p / q\<close>.
\<close>

definition floor_log2 :: "nat \<Rightarrow> nat \<Rightarrow> int" where
  "floor_log2 p q =
     (let k = int (bit_length p) - int (bit_length q)
      in if (if 0 \<le> k then q * 2 ^ nat k \<le> p else q \<le> p * 2 ^ nat (- k)) then k else k - 1)"

text \<open>
  The double nearest to the positive rational \<open>p / q\<close>, ties to even: 53 significant
  bits, the exponent of the last bit not below \<open>-1074\<close> (subnormal numbers), and infinity
  from \<open>2 ^ 1024\<close> on.
\<close>

definition round_double :: "bool \<Rightarrow> nat \<Rightarrow> nat \<Rightarrow> pyfloat" where
  "round_double s p q =
     (let e = max (floor_log2 p q - 52) (- 1074);
          m = (if 0 \<le> e then round_half_even p (q * 2 ^ nat e)
               else round_half_even (p * 2 ^ nat (- e)) q)
      in if 0 \<le> e \<and> 2 ^ 1024 \<le> m * 2 ^ nat e then Infinity s else Finite s m e)"

text \<open>
  \<^verbatim>\<open>a / b\<close> for two integers: the correctly rounded quotient; it raises for a zero
  divisor and for a quotient too large for a double.
\<close>

definition py_truediv :: "int \<Rightarrow> int \<Rightarrow> py_error + pyfloat" where
  "py_truediv a b =
     (if b = 0 then Inl (ZeroDivisionError ''division by zero'')
      else if a = 0 then Inr (Finite (b < 0) 0 0)
      else
        (case round_double ((a < 0) \<noteq> (b < 0)) (nat \<bar>a\<bar>) (nat \<bar>b\<bar>) of
           Finite s m e \<Rightarrow> Inr (Finite s m e)
         | _ \<Rightarrow> Inl (OverflowError ''integer division result too large for a float'')))"

text \<open>\<^verbatim>\<open>x * n\<close> for a float and a positive integer.\<close>

fun float_times :: "pyfloat \<Rightarrow> nat \<Rightarrow> pyfloat" where
  "float_times (Finite s m e) n =
     (if m = 0 \<or> n = 0 then Finite s 0 0
      else if 0 \<le> e then round_double s (m * n * 2 ^ nat e) 1
      else round_double s (m * n) (2 ^ nat (- e)))"
| "float_times (Infinity s) n = (if n = 0 then NaN else Infinity s)"
| "float_times NaN n = NaN"

text \<open>
  \<^verbatim>\<open>f"{x:.2f}"\<close>: the decimal with two digits after the point that is nearest to the
  exact value of the double, ties to even; the sign is kept when the digits are zero.
\<close>

fun format_2f :: "pyfloat \<Rightarrow> string" where
  "format_2f (Finite s m e) =
     (let c = (if 0 \<le> e then m * 2 ^ nat e * 100 else round_half_even (m * 100) (2 ^ nat (- e)))
      in (if s then ''-'' else '''') @ str_nat (c div 100) @ ''.''
         @ [digit_char (c div 10), digit_char c])"
| "format_2f (Infinity s) = (if s then ''-inf'' else ''inf'')"
| "format_2f NaN = ''nan''"


section \<open>The metrics forwarder (dynatrace/metrics\_client.py)\<close>

record metrics_client =
  mc_base_url :: string
  mc_api_token :: json
  mc_timeout :: int
  mc_ingest_url :: string

definition DynatraceMetricsClient :: "string option \<Rightarrow> json \<Rightarrow> int \<Rightarrow> py_error + metrics_client" where
  "DynatraceMetricsClient environment_url api_token timeout =
     (case environment_url of
        None \<Rightarrow> Inl (AttributeError (no_attribute ''NoneType'' ''rstrip''))
      | Some u \<Rightarrow>
          Inr \<lparr>mc_base_url = rstrip CHR ''/'' u, mc_api_token = api_token, mc_timeout = timeout,
               mc_ingest_url = rstrip CHR ''/'' u @ ''/api/v2/metrics/ingest''\<rparr>)"

text \<open>
  Lines 65 to 74 of \<^verbatim>\<open>send_metrics\<close>, after \<^verbatim>\<open>raise_for_status\<close> has returned:
  the body is decoded when it is not empty, the two counts are read for the log line,
  the count of invalid lines is compared with zero, and the decoded body is returned.
  Each of these steps can raise; whatever is raised leaves \<^verbatim>\<open>send_metrics\<close> (the two
  handlers log and re-raise).
\<close>

definition read_ingest_result :: "env \<Rightarrow> response \<Rightarrow> py_error + json" where
  "read_ingest_result e r =
     (case (if resp_text r \<noteq> [] then json_loads e (resp_text r) else Inr (JObj [])) of
        Inl err \<Rightarrow> Inl err
      | Inr result \<Rightarrow>
          (case py_get result ''linesOk'' (JInt 0) of
             Inl err \<Rightarrow> Inl err
           | Inr ok \<Rightarrow>
               (case py_get result ''linesInvalid'' (JInt 0) of
                  Inl err \<Rightarrow> Inl err
                | Inr invalid \<Rightarrow>
                    (case gt_zero invalid of
                       Inl err \<Rightarrow> Inl err
                     | Inr warn \<Rightarrow> Inr result))))"

text \<open>\<^verbatim>\<open>DynatraceMetricsClient.send_metrics\<close>: one request for all the lines.\<close>

definition send_metrics :: "env \<Rightarrow> metrics_client \<Rightarrow> world \<Rightarrow> string list \<Rightarrow> world \<times> (py_error + json)" where
  "send_metrics e self w metrics =
     (if metrics = [] then (w, Inr (JObj [(''linesOk'', JInt 0), (''linesInvalid'', JInt 0)]))
      else
        (let (w1, out) = post e w
               \<lparr>req_url = mc_ingest_url self, req_token = mc_api_token self,
                req_content_type = ''text/plain; charset=utf-8'',
                req_timeout = mc_timeout self,
                req_data = TextBody (join [CHR 0x0A] metrics)\<rparr>
         in (case out of
               Raises m \<Rightarrow> (w1, Inl (RequestException m))
             | Response r \<Rightarrow>
                 (case raise_for_status r of
                    Some err \<Rightarrow> (w1, Inl err)
                  | None \<Rightarrow> (w1, read_ingest_result e r)))))"

section \<open>The collector (collectors/postgres\_collector.py)\<close>

record postgres_collector =
  pc_host :: "string option"
  pc_port :: int
  pc_database :: "string option"
  pc_user :: "string option"
  pc_password :: json
  pc_threshold_seconds :: int

text \<open>
  \<^verbatim>\<open>get_long_running_queries\<close>: the connection and the query are the database's
  side; the call returns the rows or raises the driver's error.
\<close>

definition get_long_running_queries ::
  "env \<Rightarrow> postgres_collector \<Rightarrow> world \<Rightarrow> world \<times> (py_error + query_row list)" where
  "get_long_running_queries e self w = (w\<lparr>db_queries := Suc (db_queries w)\<rparr>, database e)"

section \<open>Secrets and configuration (lambda\_function.py)\<close>

text \<open>How an f-string shows a value that may be \<^verbatim>\<open>None\<close>.\<close>

definition str_opt :: "string option \<Rightarrow> string" where
  "str_opt v = (case v of None \<Rightarrow> ''None'' | Some s \<Rightarrow> s)"

text \<open>
  \<^verbatim>\<open>get_secret\<close>. Only \<^verbatim>\<open>json.JSONDecodeError\<close> is caught; in
  \<^verbatim>\<open>a or b or c\<close> the first true operand is the value, the last one otherwise.
\<close>

definition get_secret :: "env \<Rightarrow> world \<Rightarrow> string option \<Rightarrow> world \<times> (py_error + json)" where
  "get_secret e w secret_arn =
     (let w1 = w\<lparr>secret_fetches := secret_fetches w @ [secret_arn]\<rparr>
      in (case secretsmanager e secret_arn of
            Inl err \<Rightarrow> (w1, Inl err)
          | Inr None \<Rightarrow>
              (w1, Inl (ValueError (''Secret '' @ str_opt secret_arn @ '' does not contain a string value'')))
          | Inr (Some secret) \<Rightarrow>
              (case json_loads e secret of
                 Inl (JSONDecodeError m) \<Rightarrow> (w1, Inr (JStr secret))
               | Inl err \<Rightarrow> (w1, Inl err)
               | Inr secret_dict \<Rightarrow>
                   (case py_get secret_dict ''password'' JNull of
                      Inl err \<Rightarrow> (w1, Inl err)
                    | Inr p \<Rightarrow>
                        if truthy p then (w1, Inr p)
                        else
                          (case py_get secret_dict ''apiToken'' JNull of
                             Inl err \<Rightarrow> (w1, Inl err)
                           | Inr t \<Rightarrow> if truthy t then (w1, Inr t) else (w1, Inr (JStr secret)))))))"

record config =
  aurora_host :: "string option"
  aurora_port :: int
  aurora_database :: "string option"
  aurora_user :: "string option"
  aurora_password_secret_arn :: "string option"
  dynatrace_environment_url :: "string option"
  dynatrace_api_token_secret_arn :: "string option"
  threshold_seconds :: int

text \<open>\<^verbatim>\<open>os.environ.get(k, default)\<close>, and \<^verbatim>\<open>not value\<close> for a string or \<^verbatim>\<open>None\<close>.\<close>

definition environ_get :: "env \<Rightarrow> string \<Rightarrow> string \<Rightarrow> string" where
  "environ_get e k dflt = (case environ e k of None \<Rightarrow> dflt | Some v \<Rightarrow> v)"

definition falsy :: "string option \<Rightarrow> bool" where
  "falsy v = (case v of None \<Rightarrow> True | Some s \<Rightarrow> s = [])"

text \<open>The list \<^verbatim>\<open>required\<close> of \<^verbatim>\<open>get_config\<close>, lines 68 to 75.\<close>

definition required :: "config \<Rightarrow> (string \<times> string option) list" where
  "required c =
     [(''AURORA_HOST'', aurora_host c),
      (''AURORA_DATABASE'', aurora_database c),
      (''AURORA_USER'', aurora_user c),
      (''AURORA_PASSWORD_SECRET_ARN'', aurora_password_secret_arn c),
      (''DT_ENVIRONMENT_URL'', dynatrace_environment_url c),
      (''DT_API_TOKEN_SECRET_ARN'', dynatrace_api_token_secret_arn c)]"

text \<open>
  \<^verbatim>\<open>get_config\<close>. The dictionary is built first, in the order of the source, so the
  two calls of \<^verbatim>\<open>int\<close> come before the check of the required values.
\<close>

definition get_config :: "env \<Rightarrow> py_error + config" where
  "get_config e =
     (case py_int (environ_get e ''AURORA_PORT'' ''5432'') of
        Inl err \<Rightarrow> Inl err
      | Inr port \<Rightarrow>
          (case py_int (environ_get e ''THRESHOLD_SECONDS'' ''60'') of
             Inl err \<Rightarrow> Inl err
           | Inr threshold \<Rightarrow>
               (let c = \<lparr>aurora_host = environ e ''AURORA_HOST'',
                          aurora_port = port,
                          aurora_database = environ e ''AURORA_DATABASE'',
                          aurora_user = environ e ''AURORA_USER'',
                          aurora_password_secret_arn = environ e ''AURORA_PASSWORD_SECRET_ARN'',
                          dynatrace_environment_url = environ e ''DT_ENVIRONMENT_URL'',
                          dynatrace_api_token_secret_arn = environ e ''DT_API_TOKEN_SECRET_ARN'',
                          threshold_seconds = threshold\<rparr>;
                    missing = map fst (filter (\<lambda>(name, v). falsy v) (required c))
                in if missing \<noteq> []
                   then Inl (ValueError (''Missing required environment variables: '' @ join '', '' missing))
                   else Inr c)))"


section \<open>The handler (lambda\_function.py)\<close>

text \<open>
  The lines of the line protocol (lines 148 to 156): the five f-strings differ in the
  metric name and in the value.
\<close>

definition metric_line :: "string \<Rightarrow> string option \<Rightarrow> string \<Rightarrow> string \<Rightarrow> string" where
  "metric_line name db_name hostname v =
     ''custom.db.long_queries.'' @ name @ '',db.type=postgres,db.name='' @ str_opt db_name
       @ '',host='' @ hostname @ '' '' @ v"

text \<open>
  \<^verbatim>\<open>max\<close> and \<^verbatim>\<open>sum\<close> over a generator: \<^verbatim>\<open>max\<close> keeps the first of equal
  maxima and raises on an empty sequence, \<^verbatim>\<open>sum\<close> adds from the left starting at 0.
\<close>

fun py_max :: "int list \<Rightarrow> py_error + int" where
  "py_max [] = Inl (ValueError ''max() arg is an empty sequence'')"
| "py_max (x # xs) = Inr (fold (\<lambda>item m. if m < item then item else m) xs x)"

definition py_sum :: "int list \<Rightarrow> int" where
  "py_sum xs = fold (\<lambda>item acc. acc + item) xs 0"

text \<open>Lines 140 to 157: the metric lines derived from the collected rows.\<close>

definition build_metrics :: "string option \<Rightarrow> string \<Rightarrow> query_row list \<Rightarrow> py_error + string list" where
  "build_metrics db_name hostname queries =
     (let query_count = length queries
      in if 0 < query_count then
           (case py_max (map duration_seconds queries) of
              Inl err \<Rightarrow> Inl err
            | Inr max_duration \<Rightarrow>
                (case py_truediv (py_sum (map duration_seconds queries)) (int query_count) of
                   Inl err \<Rightarrow> Inl err
                 | Inr avg_duration \<Rightarrow>
                     (let total_duration = py_sum (map duration_seconds queries)
                      in Inr [metric_line ''count'' db_name hostname (str_int (int query_count)),
                              metric_line ''max_duration_seconds'' db_name hostname (str_int max_duration),
                              metric_line ''avg_duration_seconds'' db_name hostname (format_2f avg_duration),
                              metric_line ''total_duration_seconds'' db_name hostname (str_int total_duration)])))
         else Inr [metric_line ''count'' db_name hostname ''0''])"

text \<open>Lines 167 to 182: the log entry of one row.\<close>

definition json_opt :: "string option \<Rightarrow> json" where
  "json_opt v = (case v of None \<Rightarrow> JNull | Some s \<Rightarrow> JStr s)"

definition or_empty :: "string option \<Rightarrow> string" where
  "or_empty v = (case v of None \<Rightarrow> '''' | Some s \<Rightarrow> s)"

definition make_log_entry :: "string option \<Rightarrow> string \<Rightarrow> query_row \<Rightarrow> dict" where
  "make_log_entry db_name hostname q =
     [(''content'', JStr (take 10000 (query q))),
      (''log.source'', JStr ''custom.db.long_running_query''),
      (''severity'', JStr (if 300 < duration_seconds q then ''ERROR'' else ''WARN'')),
      (''db.type'', JStr ''postgres''),
      (''db.name'', json_opt db_name),
      (''db.host'', JStr hostname),
      (''query.pid'', JStr (str_int (pid q))),
      (''query.duration_seconds'', JStr (str_int (duration_seconds q))),
      (''query.state'', JStr (state q)),
      (''query.wait_event_type'', JStr (or_empty (wait_event_type q))),
      (''query.wait_event'', JStr (or_empty (wait_event q))),
      (''query.username'', JStr (usename q)),
      (''query.database'', JStr (datname q))]"

text \<open>
  The loop of lines 166 to 183: each entry is a new dictionary, at a fresh address, and
  its reference is appended to \<^verbatim>\<open>log_entries\<close>.
\<close>

fun append_entries :: "string option \<Rightarrow> string \<Rightarrow> query_row list \<Rightarrow> world \<times> addr list \<Rightarrow> world \<times> addr list" where
  "append_entries db_name hostname [] (w, log_entries) = (w, log_entries)"
| "append_entries db_name hostname (q # qs) (w, log_entries) =
     append_entries db_name hostname qs
       (w\<lparr>heap := (heap w)(next_addr w := make_log_entry db_name hostname q),
          next_addr := Suc (next_addr w)\<rparr>,
        log_entries @ [next_addr w])"

definition read_utcnow :: "env \<Rightarrow> world \<Rightarrow> world \<times> int" where
  "read_utcnow e w = (w\<lparr>utc_reads := Suc (utc_reads w)\<rparr>, utcnow_us e (utc_reads w))"

text \<open>
  Sequencing inside the \<^verbatim>\<open>try\<close> block: a step that raises ends the block with the
  world as it is at that moment; otherwise the next step runs on the new world.
\<close>

definition then_do ::
  "world \<times> (py_error + 'a) \<Rightarrow> (world \<Rightarrow> 'a \<Rightarrow> world \<times> (py_error + 'b)) \<Rightarrow> world \<times> (py_error + 'b)" where
  "then_do m f = (case m of (w, r) \<Rightarrow> (case r of Inl err \<Rightarrow> (w, Inl err) | Inr x \<Rightarrow> f w x))"

text \<open>Lines 164 to 187: the logs are sent only when rows were found.\<close>

definition send_query_logs ::
  "env \<Rightarrow> logs_client \<Rightarrow> string option \<Rightarrow> string \<Rightarrow> world \<Rightarrow> query_row list \<Rightarrow> world \<times> (py_error + dict)" where
  "send_query_logs e logs_client db_name hostname w queries =
     (if 0 < length queries then
        (let (w1, log_entries) = append_entries db_name hostname queries (w, [])
         in send_logs e logs_client w1 log_entries)
      else (w, Inr []))"

text \<open>
  Lines 189 to 204: the body of the success result, the dictionary given to
  \<^verbatim>\<open>json.dumps\<close>. The elapsed time is the difference of the two clock values in
  microseconds, divided by \<open>10\<^sup>6\<close> (\<^verbatim>\<open>total_seconds\<close>) and multiplied by 1000.
\<close>

definition success_body :: "nat \<Rightarrow> nat \<Rightarrow> pyfloat \<Rightarrow> json" where
  "success_body query_count n_metrics execution_time_ms =
     JObj [(''message'', JStr ''Collection completed successfully''),
           (''queries_found'', JInt (int query_count)),
           (''metrics_sent'', JInt (int n_metrics)),
           (''logs_sent'', JInt (int query_count)),
           (''execution_time_ms'', JFloat execution_time_ms)]"

text \<open>The \<^verbatim>\<open>try\<close> block of \<^verbatim>\<open>lambda_handler\<close>, lines 99 to 204.\<close>

definition run_collection :: "env \<Rightarrow> world \<Rightarrow> int \<Rightarrow> world \<times> (py_error + json)" where
  "run_collection e w start_time =
     then_do (w, get_config e) (\<lambda>w config.
     then_do (get_secret e w (aurora_password_secret_arn config)) (\<lambda>w db_password.
     then_do (get_secret e w (dynatrace_api_token_secret_arn config)) (\<lambda>w dt_api_token.
     then_do (w, Inr \<lparr>pc_host = aurora_host config, pc_port = aurora_port config,
                       pc_database = aurora_database config, pc_user = aurora_user config,
                       pc_password = db_password,
                       pc_threshold_seconds = threshold_seconds config\<rparr>) (\<lambda>w collector.
     then_do (w, DynatraceMetricsClient (dynatrace_environment_url config) dt_api_token 30) (\<lambda>w metrics_client.
     then_do (w, DynatraceLogsClient (dynatrace_environment_url config) dt_api_token 30 100) (\<lambda>w logs_client.
     then_do (get_long_running_queries e collector w) (\<lambda>w queries.
     then_do (w, case aurora_host config of
                   None \<Rightarrow> Inl (AttributeError (no_attribute ''NoneType'' ''split''))
                 | Some h \<Rightarrow> Inr (split_first CHR ''.'' h)) (\<lambda>w hostname.
     then_do (w, build_metrics (aurora_database config) hostname queries) (\<lambda>w metrics.
     then_do (send_metrics e metrics_client w metrics) (\<lambda>w metrics_result.
     then_do (send_query_logs e logs_client (aurora_database config) hostname w queries) (\<lambda>w logs_result.
     (let (w', end_time) = read_utcnow e w
      in then_do (w', py_truediv (end_time - start_time) 1000000) (\<lambda>w total_seconds.
           (w, Inr (success_body (length queries) (length metrics)
                      (float_times total_seconds 1000))))))))))))))))"

record lambda_result =
  statusCode :: int
  body :: json

text \<open>\<^verbatim>\<open>lambda_handler\<close>: the \<^verbatim>\<open>try\<close> block and its handler, lines 206 to 211.\<close>

definition lambda_handler :: "env \<Rightarrow> world \<Rightarrow> world \<times> lambda_result" where
  "lambda_handler e w =
     (let (w0, start_time) = read_utcnow e w
      in (case run_collection e w0 start_time of
            (w', Inr b) \<Rightarrow> (w', \<lparr>statusCode = 200, body = b\<rparr>)
          | (w', Inl err) \<Rightarrow> (w', \<lparr>statusCode = 500, body = JObj [(''error'', JStr (str_exc err))]\<rparr>)))"


section \<open>Notions the properties are stated with\<close>

subsection \<open>Batches of the log forwarder\<close>

text \<open>
  A batch fails when \<^verbatim>\<open>requests.post\<close> raises, or when the response has a status
  code for which \<open>raise_for_status\<close> raises. The string recorded for a failed batch is
  the one of lines 94 and 98.
\<close>

definition batch_failed :: "http_outcome \<Rightarrow> bool" where
  "batch_failed out =
     (case out of Raises m \<Rightarrow> True | Response r \<Rightarrow> 400 \<le> status_code r \<and> status_code r < 600)"

definition batch_error :: "http_outcome \<Rightarrow> string" where
  "batch_error out =
     (case out of
        Raises m \<Rightarrow> m
      | Response r \<Rightarrow> ''HTTP '' @ str_int (status_code r) @ '': '' @ resp_text r)"

text \<open>
  The slice taken at index \<open>i\<close>, the \<open>k\<close>-th batch, the number of batches
  (\<open>\<lceil>B / S\<rceil>\<close>, see \<open>n_batches_ceiling\<close>), and the state of the loop of
  \<^verbatim>\<open>send_logs\<close> when it has run \<open>k\<close> iterations.
\<close>

definition batch_at :: "logs_client \<Rightarrow> addr list \<Rightarrow> nat \<Rightarrow> addr list" where
  "batch_at self les i = take (nat (lc_batch_size self)) (drop i les)"

definition batch_no :: "logs_client \<Rightarrow> addr list \<Rightarrow> nat \<Rightarrow> addr list" where
  "batch_no self les k = batch_at self les (k * nat (lc_batch_size self))"

definition n_batches :: "logs_client \<Rightarrow> addr list \<Rightarrow> nat" where
  "n_batches self les = (length les + nat (lc_batch_size self) - 1) div nat (lc_batch_size self)"

definition loop_state :: "env \<Rightarrow> logs_client \<Rightarrow> world \<Rightarrow> addr list \<Rightarrow> nat \<Rightarrow> world \<times> nat \<times> string list" where
  "loop_state e self w les k =
     fold (send_batch e self les) (map (\<lambda>j. j * nat (lc_batch_size self)) [0..<k]) (w, 0, [])"

text \<open>The \<^verbatim>\<open>errors\<close> list of a result, empty when the key is absent.\<close>

definition errors_of :: "dict \<Rightarrow> json list" where
  "errors_of r = (case map_of r ''errors'' of Some (JArr xs) \<Rightarrow> xs | _ \<Rightarrow> [])"

subsection \<open>Errors of the handler\<close>

text \<open>
  The message of the \<^verbatim>\<open>HTTPError\<close> that \<open>raise_for_status\<close> raises, the names of
  the required environment variables and those that are unset or empty, and the test
  that a message names a key (the key occurs in it).
\<close>

definition http_error_msg :: "response \<Rightarrow> string" where
  "http_error_msg r =
     str_int (status_code r)
       @ (if status_code r < 500 then '' Client Error: '' else '' Server Error: '')
       @ reason r @ '' for url: '' @ resp_url r"

definition required_names :: "string list" where
  "required_names =
     [''AURORA_HOST'', ''AURORA_DATABASE'', ''AURORA_USER'', ''AURORA_PASSWORD_SECRET_ARN'',
      ''DT_ENVIRONMENT_URL'', ''DT_API_TOKEN_SECRET_ARN'']"

definition missing_keys :: "env \<Rightarrow> string list" where
  "missing_keys e = filter (\<lambda>k. falsy (environ e k)) required_names"

fun starts_with :: "string \<Rightarrow> string \<Rightarrow> bool" where
  "starts_with [] s = True"
| "starts_with (c # cs) [] = False"
| "starts_with (c # cs) (d # ds) = (c = d \<and> starts_with cs ds)"

fun contains :: "string \<Rightarrow> string \<Rightarrow> bool" where
  "contains k [] = (k = [])"
| "contains k (c # cs) = (starts_with k (c # cs) \<or> contains k cs)"

subsection \<open>Concrete inputs\<close>

text \<open>
  A backend that answers every request as \<open>outcomes\<close> says, three log entries of which
  the second carries a timestamp, and a client with a given batch size.
\<close>

definition demo_response :: "int \<Rightarrow> string \<Rightarrow> http_outcome" where
  "demo_response code txt =
     Response \<lparr>status_code = code, reason = '''', resp_url = ''https://abc.live.dynatrace.com/api/v2/logs/ingest'',
               resp_text = txt\<rparr>"

definition demo_env :: "(nat \<Rightarrow> http_outcome) \<Rightarrow> env" where
  "demo_env outcomes =
     \<lparr>environ = (\<lambda>k. None), secretsmanager = (\<lambda>arn. Inl (ClientError ''unreachable'')),
      json_loads = (\<lambda>s. Inl (JSONDecodeError ''Expecting value'')),
      database = Inr [], http = outcomes,
      time_ms = (\<lambda>k. 1700000000000 + int k), utcnow_us = (\<lambda>k. 1700000000000000 + int k)\<rparr>"

definition demo_world :: "dict list \<Rightarrow> world" where
  "demo_world ds =
     \<lparr>heap = (\<lambda>a. if a < length ds then ds ! a else []), next_addr = length ds, time_reads = 0,
      utc_reads = 0, secret_fetches = [], db_queries = 0, requests = []\<rparr>"

definition demo_client :: "int \<Rightarrow> logs_client" where
  "demo_client batch_size =
     \<lparr>lc_base_url = ''https://abc.live.dynatrace.com'', lc_api_token = JStr ''dt0c01.token'',
      lc_timeout = 30, lc_batch_size = batch_size,
      lc_ingest_url = ''https://abc.live.dynatrace.com/api/v2/logs/ingest''\<rparr>"

definition demo_entries :: "dict list" where
  "demo_entries =
     [[(''content'', JStr ''select 1''), (''severity'', JStr ''WARN'')],
      [(''content'', JStr ''select 2''), (''severity'', JStr ''ERROR''), (''timestamp'', JInt 5)],
      [(''content'', JStr ''select 3''), (''severity'', JStr ''WARN'')]]"

definition demo_outcomes :: "nat \<Rightarrow> http_outcome" where
  "demo_outcomes k = (if k = 1 then demo_response 500 ''boom'' else demo_response 204 '''')"

lemmas demo_defs = demo_env_def demo_world_def demo_client_def demo_entries_def demo_response_def
lemmas eval_defs = send_logs_def py_range_def range_from.simps read_time_ms_def post_def
  raise_for_status_def Let_def str_int_def str_nat.simps digit_char_def
lemmas spec_defs = n_batches_def batch_no_def batch_at_def batch_failed_def batch_error_def errors_of_def
  demo_outcomes_def

text \<open>
  An invocation: a complete environment, two rows with durations 120 and 400, a
  secret that is not JSON, and a backend that answers as \<open>outcomes\<close> says.
\<close>

definition demo_row :: "int \<Rightarrow> int \<Rightarrow> string \<Rightarrow> query_row" where
  "demo_row p d q =
     \<lparr>pid = p, usename = ''app'', datname = ''orders'', state = ''active'',
      wait_event_type = None, wait_event = Some ''ClientRead'',
      query_start = ''2024-01-01 00:00:00+00'', duration_seconds = d, query = q,
      backend_type = ''client backend'', client_addr = Some ''10.0.0.7'',
      client_hostname = None, application_name = ''psql''\<rparr>"

definition demo_rows :: "query_row list" where
  "demo_rows = [demo_row 4711 120 ''select pg_sleep(500)'', demo_row 4712 400 ''vacuum full'']"

definition demo_environ :: "(string \<times> string) list" where
  "demo_environ =
     [(''AURORA_HOST'', ''mydb.cluster-x.eu-west-1.rds.amazonaws.com''),
      (''AURORA_DATABASE'', ''orders''),
      (''AURORA_USER'', ''monitor''),
      (''AURORA_PASSWORD_SECRET_ARN'', ''arn:aws:secretsmanager:pw''),
      (''DT_ENVIRONMENT_URL'', ''https://abc.live.dynatrace.com/''),
      (''DT_API_TOKEN_SECRET_ARN'', ''arn:aws:secretsmanager:token'')]"

definition handler_env :: "(string \<times> string) list \<Rightarrow> (nat \<Rightarrow> http_outcome) \<Rightarrow> env" where
  "handler_env vars outcomes =
     \<lparr>environ = map_of vars, secretsmanager = (\<lambda>arn. Inr (Some ''s3cret'')),
      json_loads = (\<lambda>s. Inl (JSONDecodeError ''Expecting value'')),
      database = Inr demo_rows, http = outcomes,
      time_ms = (\<lambda>k. 1700000000000 + int k),
      utcnow_us = (\<lambda>k. 1700000000000000 + 250000 * int k)\<rparr>"

definition demo_backend :: "nat \<Rightarrow> http_outcome" where
  "demo_backend k = (if k = 0 then demo_response 202 '''' else demo_response 500 ''boom'')"

definition demo_unavailable :: "nat \<Rightarrow> http_outcome" where
  "demo_unavailable k =
     Response \<lparr>status_code = 503, reason = ''Service Unavailable'',
               resp_url = ''https://abc.live.dynatrace.com/api/v2/metrics/ingest'', resp_text = ''busy''\<rparr>"

definition demo_not_modified :: "nat \<Rightarrow> http_outcome" where
  "demo_not_modified k = demo_response 304 ''''"

definition demo_mclient :: metrics_client where
  "demo_mclient =
     \<lparr>mc_base_url = ''https://abc.live.dynatrace.com'', mc_api_token = JStr ''dt0c01.token'',
      mc_timeout = 30, mc_ingest_url = ''https://abc.live.dynatrace.com/api/v2/metrics/ingest''\<rparr>"

definition demo_environ_incomplete :: "(string \<times> string) list" where
  "demo_environ_incomplete =
     [(''AURORA_DATABASE'', ''orders''),
      (''AURORA_USER'', ''monitor''),
      (''AURORA_PASSWORD_SECRET_ARN'', ''arn:aws:secretsmanager:pw''),
      (''DT_ENVIRONMENT_URL'', ''''),
      (''DT_API_TOKEN_SECRET_ARN'', ''arn:aws:secretsmanager:token'')]"

definition demo_environ_bad_port :: "(string \<times> string) list" where
  "demo_environ_bad_port = (''AURORA_PORT'', ''abc'') # demo_environ_incomplete"

lemmas config_defs = handler_env_def demo_environ_incomplete_def demo_environ_bad_port_def
  environ_get_def falsy_def required_names_def missing_keys_def

text \<open>The same invocation with a secret whose text is the JSON number \<^verbatim>\<open>12345\<close>.\<close>

definition numeric_secret_env :: env where
  "numeric_secret_env =
     (handler_env demo_environ demo_backend)
       \<lparr>secretsmanager := (\<lambda>arn. Inr (Some ''12345'')),
        json_loads := (\<lambda>s. if s = ''12345'' then Inr (JInt 12345) else Inl (JSONDecodeError ''Expecting value''))\<rparr>"

text \<open>A field of the body of a result.\<close>

definition body_field :: "lambda_result \<Rightarrow> string \<Rightarrow> json option" where
  "body_field res k = (case body res of JObj kvs \<Rightarrow> map_of kvs k | _ \<Rightarrow> None)"

lemmas handler_defs = lambda_handler_def run_collection_def then_do_def read_utcnow_def get_config_def
  environ_get_def falsy_def required_def get_secret_def get_long_running_queries_def
  DynatraceMetricsClient_def DynatraceLogsClient_def rstrip_def split_first_def build_metrics_def
  py_sum_def metric_line_def str_opt_def send_metrics_def read_ingest_result_def py_get_def gt_zero_def
  send_query_logs_def make_log_entry_def json_opt_def or_empty_def success_body_def body_field_def
lemmas int_defs = py_int_def ascii_space_def is_space_def is_digit_def digit_val_def py_repr_def
  repr_char_def hex_char_def Let_def
lemmas float_defs = py_truediv_def round_double_def floor_log2_def bit_length.simps round_half_even_def
lemmas handler_demo_defs = handler_env_def demo_environ_def demo_rows_def demo_row_def

section \<open>The log forwarder: batching, stamping, partial failure\<close>

subsection \<open>The indices of the loop\<close>

lemma ceil_div_less: "0 < s \<Longrightarrow> (k < (n + s - 1) div s) = (k * s < (n::nat))"
proof -
  assume s: "0 < s"
  have "(k < (n + s - 1) div s) = (Suc k \<le> (n + s - 1) div s)" by auto
  also have "\<dots> = (Suc k * s \<le> n + s - 1)"
    using s by (simp add: less_eq_div_iff_mult_less_eq)
  also have "\<dots> = (k * s < n)" using s by (cases n) auto
  finally show ?thesis .
qed

lemma range_from_upt:
  "0 < s \<Longrightarrow> range_from (k0 * s) n s = map (\<lambda>k. k * s) [k0..<(n + s - 1) div s]"
proof (induction "k0 * s" n s arbitrary: k0 rule: range_from.induct)
  case (1 n s)
  show ?case
  proof (cases "k0 * s < n")
    case True
    then have lt: "k0 < (n + s - 1) div s"
      using ceil_div_less[OF 1(2), of k0 n] by simp
    have "range_from (Suc k0 * s) n s = map (\<lambda>k. k * s) [Suc k0..<(n + s - 1) div s]"
      using 1(1)[of "Suc k0"] True 1(2) by (simp add: add.commute)
    then show ?thesis
      using True 1(2) lt by (subst range_from.simps) (simp add: upt_conv_Cons add.commute)
  next
    case False
    then have "\<not> k0 < (n + s - 1) div s"
      using ceil_div_less[OF 1(2), of k0 n] by simp
    then show ?thesis using False by (subst range_from.simps) simp
  qed
qed

lemma ceil_div_ceiling:
  assumes "0 < S"
  shows "int ((n + S - 1) div S) = \<lceil>real n / real S\<rceil>"
proof -
  define c where "c = (n + S - 1) div S"
  have up: "n \<le> c * S" using ceil_div_less[OF assms, of c n] by (simp add: c_def)
  have lo: "c = 0 \<or> (c - 1) * S < n"
    using ceil_div_less[OF assms, of "c - 1" n] by (auto simp: c_def)
  have Sr: "0 < real S" using assms by simp
  have "real n \<le> real c * real S" using up by (metis of_nat_le_iff of_nat_mult)
  then have 1: "real n / real S \<le> real c" using Sr by (simp add: pos_divide_le_eq)
  have 2: "real c - 1 < real n / real S"
  proof (cases "c = 0")
    case True
    then show ?thesis using Sr by (simp add: order_less_le_trans[of _ 0])
  next
    case False
    then have "(c - 1) * S < n" using lo by simp
    then have "real ((c - 1) * S) < real n" using of_nat_less_iff by blast
    then have "(real c - 1) * real S < real n" using False by (simp add: of_nat_diff)
    then show ?thesis using Sr by (simp add: pos_less_divide_eq)
  qed
  have "\<lceil>real n / real S\<rceil> = int c"
    by (rule ceiling_unique) (use 1 2 in simp_all)
  then show ?thesis by (simp add: c_def)
qed

subsection \<open>One iteration\<close>

lemma stamp_entries_apply:
  "stamp_entries h t b a =
     (if a \<in> set b \<and> map_of (h a) ''timestamp'' = None
      then AList.update ''timestamp'' (JInt t) (h a) else h a)"
  by (induction b arbitrary: h) (auto simp: update_Some_unfold)

lemma send_batch_world:
  "send_batch e self les i (w, ts, errs) = (w', ts', errs') \<Longrightarrow>
     heap w' = stamp_entries (heap w) (time_ms e (time_reads w)) (batch_at self les i) \<and>
     time_reads w' = Suc (time_reads w) \<and>
     length (requests w') = Suc (length (requests w)) \<and>
     next_addr w' = next_addr w \<and> utc_reads w' = utc_reads w \<and>
     secret_fetches w' = secret_fetches w \<and> db_queries w' = db_queries w"
  by (auto simp: read_time_ms_def post_def batch_at_def Let_def split: http_outcome.splits option.splits)

lemma send_batch_count:
  "send_batch e self les i (w, ts, errs) = (w', ts', errs') \<Longrightarrow>
     ts' = ts + (if batch_failed (http e (length (requests w))) then 0 else length (batch_at self les i)) \<and>
     errs' = errs @ (if batch_failed (http e (length (requests w))) then [batch_error (http e (length (requests w)))] else [])"
  by (auto simp: read_time_ms_def post_def batch_at_def batch_failed_def batch_error_def raise_for_status_def Let_def
       split: http_outcome.splits option.splits if_splits)

subsection \<open>The whole loop\<close>

lemma fold_send_batch:
  "fold (send_batch e self les) (map (\<lambda>k. k * S) [k0..<nb]) (w, ts, errs) = (w', ts', errs') \<Longrightarrow>
   length (requests w) = r0 + k0 \<Longrightarrow> k0 \<le> nb \<Longrightarrow>
     length (requests w') = r0 + nb \<and>
     time_reads w' = time_reads w + (nb - k0) \<and>
     ts' = ts + sum_list (map (\<lambda>k. if batch_failed (http e (r0 + k)) then 0
                                     else length (batch_at self les (k * S))) [k0..<nb]) \<and>
     errs' = errs @ map (\<lambda>k. batch_error (http e (r0 + k)))
                        (filter (\<lambda>k. batch_failed (http e (r0 + k))) [k0..<nb]) \<and>
     next_addr w' = next_addr w \<and> utc_reads w' = utc_reads w \<and>
     secret_fetches w' = secret_fetches w \<and> db_queries w' = db_queries w"
proof (induction "nb - k0" arbitrary: k0 w ts errs)
  case 0
  then show ?case by simp
next
  case (Suc d)
  then have lt: "k0 < nb" by simp
  obtain w1 ts1 errs1 where step: "send_batch e self les (k0 * S) (w, ts, errs) = (w1, ts1, errs1)"
    by (metis prod_cases3)
  have rest: "fold (send_batch e self les) (map (\<lambda>k. k * S) [Suc k0..<nb]) (w1, ts1, errs1) = (w', ts', errs')"
    using Suc.prems(1) lt step by (simp add: upt_conv_Cons)
  note W = send_batch_world[OF step] and C = send_batch_count[OF step]
  have len1: "length (requests w1) = r0 + Suc k0" using W Suc.prems(2) by simp
  have d: "d = nb - Suc k0" using Suc.hyps(2) by simp
  have le: "Suc k0 \<le> nb" using lt by simp
  note IH = Suc.hyps(1)[OF d rest len1 le]
  show ?case
    using IH W C lt Suc.prems(2) by (simp add: upt_conv_Cons)
qed

lemma fold_send_batch_heap:
  "fold (send_batch e self les) idxs (w, ts, errs) = (w', ts', errs') \<Longrightarrow>
     (map_of (heap w a) ''timestamp'' \<noteq> None \<longrightarrow> heap w' a = heap w a) \<and>
     ((\<forall>i\<in>set idxs. a \<notin> set (batch_at self les i)) \<longrightarrow> heap w' a = heap w a) \<and>
     ((\<exists>i\<in>set idxs. a \<in> set (batch_at self les i)) \<longrightarrow> map_of (heap w' a) ''timestamp'' \<noteq> None) \<and>
     (heap w' a = heap w a \<or> (\<exists>t. heap w' a = AList.update ''timestamp'' (JInt t) (heap w a)))"
proof (induction idxs arbitrary: w ts errs)
  case Nil
  then show ?case by simp
next
  case (Cons i idxs)
  obtain w1 ts1 errs1 where step: "send_batch e self les i (w, ts, errs) = (w1, ts1, errs1)"
    by (metis prod_cases3)
  have rest: "fold (send_batch e self les) idxs (w1, ts1, errs1) = (w', ts', errs')"
    using Cons.prems step by simp
  have h1: "heap w1 a =
     (if a \<in> set (batch_at self les i) \<and> map_of (heap w a) ''timestamp'' = None
      then AList.update ''timestamp'' (JInt (time_ms e (time_reads w))) (heap w a) else heap w a)"
    using send_batch_world[OF step] by (simp add: stamp_entries_apply)
  note IH = Cons.IH[OF rest]
  show ?case
  proof (cases "a \<in> set (batch_at self les i) \<and> map_of (heap w a) ''timestamp'' = None")
    case True
    then have eq: "heap w1 a = AList.update ''timestamp'' (JInt (time_ms e (time_reads w))) (heap w a)"
      using h1 by simp
    then have "map_of (heap w1 a) ''timestamp'' \<noteq> None" by (simp add: update_conv')
    then have "heap w' a = heap w1 a" using IH by blast
    then show ?thesis using True eq by (auto simp: update_conv')
  next
    case False
    then have eq: "heap w1 a = heap w a" using h1 by auto
    show ?thesis using IH False unfolding eq by auto
  qed
qed

lemma batches_cover:
  assumes "0 < S" "a \<in> set les" "lc_batch_size self = int S"
  shows "\<exists>i\<in>set (range_from 0 (length les) S). a \<in> set (batch_at self les i)"
proof -
  from assms(2) obtain j where j: "j < length les" "les ! j = a"
    by (auto simp: in_set_conv_nth)
  define k where "k = j div S"
  define i where "i = k * S"
  have kS: "i \<le> j" by (simp add: i_def k_def)
  have jlt: "j < i + S" using assms(1) unfolding i_def k_def
    by (metis add.commute div_mult_mod_eq mod_less_divisor mult.commute nat_add_left_cancel_less)
  have "k * S < length les" using kS j(1) unfolding i_def by (rule le_less_trans)
  then have "k < (length les + S - 1) div S" using ceil_div_less[OF assms(1), of k "length les"] by simp
  then have mem: "i \<in> set (range_from 0 (length les) S)"
    using range_from_upt[OF assms(1), of 0 "length les"] by (auto simp: i_def)
  have "drop i les ! (j - i) = a" using j kS by simp
  moreover have "j - i < S" using jlt kS by simp
  moreover have "j - i < length (drop i les)" using j kS by simp
  ultimately have "a \<in> set (take S (drop i les))"
    by (metis in_set_conv_nth length_take min_less_iff_conj nth_take)
  then show ?thesis using mem assms(3) by (auto simp: batch_at_def)
qed

lemma send_logs_loop:
  assumes "0 < lc_batch_size self"
  shows "send_logs e self w les =
     (case loop_state e self w les (n_batches self les) of
        (w', total_sent, errors) \<Rightarrow>
          (w', Inr (if les = [] then [(''sent'', JInt 0)]
                    else [(''sent'', JInt (int total_sent)), (''total'', JInt (int (length les)))]
                         @ (if errors \<noteq> [] then [(''errors'', JArr (map JStr errors))] else []))))"
proof -
  have S: "0 < nat (lc_batch_size self)" using assms by simp
  show ?thesis
  proof (cases "les = []")
    case True
    have "(nat (lc_batch_size self) - 1) div nat (lc_batch_size self) = 0" using S by simp
    then show ?thesis using True by (simp add: send_logs_def loop_state_def n_batches_def)
  next
    case False
    have "py_range (length les) (lc_batch_size self)
        = Inr (map (\<lambda>j. j * nat (lc_batch_size self)) [0..<n_batches self les])"
      using assms range_from_upt[OF S, of 0 "length les"] by (simp add: py_range_def n_batches_def)
    then show ?thesis using False by (simp add: send_logs_def loop_state_def)
  qed
qed

lemma loop_state_facts:
  assumes "loop_state e self w les k = (w', ts', errs')"
  shows "length (requests w') = length (requests w) + k"
    and "time_reads w' = time_reads w + k"
    and "ts' = sum_list (map (\<lambda>j. if batch_failed (http e (length (requests w) + j)) then 0
                                     else length (batch_no self les j)) [0..<k])"
    and "errs' = map (\<lambda>j. batch_error (http e (length (requests w) + j)))
                        (filter (\<lambda>j. batch_failed (http e (length (requests w) + j))) [0..<k])"
    and "next_addr w' = next_addr w" and "utc_reads w' = utc_reads w"
    and "secret_fetches w' = secret_fetches w" and "db_queries w' = db_queries w"
  using fold_send_batch[OF assms[unfolded loop_state_def], of "length (requests w)"]
  by (simp_all add: batch_no_def cong: if_cong)

lemma n_batches_ceiling:
  assumes "0 < lc_batch_size self"
  shows "int (n_batches self les) = \<lceil>real (length les) / real_of_int (lc_batch_size self)\<rceil>"
proof -
  have "real_of_int (lc_batch_size self) = real (nat (lc_batch_size self))" using assms by simp
  then show ?thesis
    using ceil_div_ceiling[of "nat (lc_batch_size self)" "length les"] assms
    by (simp add: n_batches_def)
qed

subsection \<open>The result of \<^verbatim>\<open>send_logs\<close>\<close>

text \<open>
  Claim C4, as the code has it. For a positive batch size \<^verbatim>\<open>send_logs\<close> returns a
  mapping. For the empty list the mapping is exactly \<^verbatim>\<open>{"sent": 0}\<close>, it has no
  \<^verbatim>\<open>total\<close> key, and the world is left as it was: no request is issued. For a
  non-empty list the mapping has a \<^verbatim>\<open>sent\<close> count, \<^verbatim>\<open>total\<close> is the number of
  input entries, and the key \<^verbatim>\<open>errors\<close> is present exactly when some batch failed.
\<close>

theorem send_logs_result_shape:
  assumes "0 < lc_batch_size self"
  shows "\<exists>w' r. send_logs e self w les = (w', Inr r) \<and>
     (if les = [] then r = [(''sent'', JInt 0)] \<and> w' = w
      else (\<exists>sent. map_of r ''sent'' = Some (JInt sent)) \<and>
           map_of r ''total'' = Some (JInt (int (length les))) \<and>
           (map_of r ''errors'' \<noteq> None) =
             (\<exists>k<n_batches self les. batch_failed (http e (length (requests w) + k))))"
proof -
  obtain w' ts' errs' where L: "loop_state e self w les (n_batches self les) = (w', ts', errs')"
    by (metis prod_cases3)
  have errs: "errs' = map (\<lambda>j. batch_error (http e (length (requests w) + j)))
       (filter (\<lambda>j. batch_failed (http e (length (requests w) + j))) [0..<n_batches self les])"
    by (rule loop_state_facts(4)[OF L])
  have ne: "(errs' \<noteq> []) = (\<exists>k<n_batches self les. batch_failed (http e (length (requests w) + k)))"
    unfolding errs by (auto simp: filter_empty_conv)
  show ?thesis
  proof (cases "les = []")
    case True
    then show ?thesis by (simp add: send_logs_def)
  next
    case False
    then show ?thesis
      using ne by (simp add: send_logs_loop[OF assms] L)
  qed
qed

theorem send_logs_result_shape_witness:
  "0 < lc_batch_size (demo_client 2) \<and>
   (\<exists>w' r. send_logs (demo_env demo_outcomes) (demo_client 2) (demo_world demo_entries) [0, 1, 2] = (w', Inr r) \<and>
      (\<exists>sent. map_of r ''sent'' = Some (JInt sent)) \<and> map_of r ''total'' = Some (JInt 3) \<and>
      map_of r ''errors'' \<noteq> None)"
proof -
  have h: "0 < lc_batch_size (demo_client 2)" by (simp add: demo_client_def)
  have f: "\<exists>k<n_batches (demo_client 2) [0, 1, 2].
     batch_failed (http (demo_env demo_outcomes) (length (requests (demo_world demo_entries)) + k))"
    by (rule exI[of _ 1]) (simp add: spec_defs demo_defs)
  show ?thesis
    using h f send_logs_result_shape[OF h, of "demo_env demo_outcomes" "demo_world demo_entries" "[0, 1, 2]"]
    by simp
qed

text \<open>
  The claim C4 as stated fails for the empty list: the result of line 59 has no
  \<^verbatim>\<open>total\<close> key.
\<close>

theorem send_logs_empty_counterexample:
  "snd (send_logs (demo_env demo_outcomes) (demo_client 100) (demo_world []) []) = Inr [(''sent'', JInt 0)]
   \<and> map_of [(''sent'', JInt 0)] ''total'' = (None :: json option)"
  by (simp add: send_logs_def)

text \<open>
  Claim C1, as the code has it. For \<open>B\<close> entries and a batch size \<open>S > 0\<close>
  \<^verbatim>\<open>send_logs\<close> returns (it does not raise), it issues \<open>\<lceil>B / S\<rceil>\<close> requests whatever
  their outcomes are, \<^verbatim>\<open>sent\<close> is the number of entries of the batches that did not
  fail, and \<^verbatim>\<open>errors\<close> holds one string for each failed batch, in order. A batch
  fails on a transport error or on a response with a status code from 400 to 599.
\<close>

theorem send_logs_partial_failure:
  assumes "0 < lc_batch_size self"
  shows "\<exists>w' r. send_logs e self w les = (w', Inr r) \<and>
     int (n_batches self les) = \<lceil>real (length les) / real_of_int (lc_batch_size self)\<rceil> \<and>
     length (requests w') = length (requests w) + n_batches self les \<and>
     map_of r ''sent'' = Some (JInt (int (sum_list (map
        (\<lambda>k. if batch_failed (http e (length (requests w) + k)) then 0 else length (batch_no self les k))
        [0..<n_batches self les])))) \<and>
     errors_of r = map (\<lambda>k. JStr (batch_error (http e (length (requests w) + k))))
        (filter (\<lambda>k. batch_failed (http e (length (requests w) + k))) [0..<n_batches self les])"
proof -
  obtain w' ts' errs' where L: "loop_state e self w les (n_batches self les) = (w', ts', errs')"
    by (metis prod_cases3)
  note F = loop_state_facts[OF L]
  have z: "les = [] \<Longrightarrow> n_batches self les = 0" using assms by (simp add: n_batches_def)
  show ?thesis
  proof (cases "les = []")
    case True
    then show ?thesis using z n_batches_ceiling[OF assms, of les]
      by (simp add: send_logs_def errors_of_def)
  next
    case False
    show ?thesis
      using False F(1) n_batches_ceiling[OF assms, of les]
      apply (simp add: send_logs_loop[OF assms] L errors_of_def)
      apply (simp add: F(3) F(4) comp_def)
      done
  qed
qed

theorem send_logs_partial_failure_witness:
  "0 < lc_batch_size (demo_client 2) \<and>
   (\<exists>w' r. send_logs (demo_env demo_outcomes) (demo_client 2) (demo_world demo_entries) [0, 1, 2] = (w', Inr r) \<and>
      length (requests w') = 2 \<and> map_of r ''sent'' = Some (JInt 2) \<and>
      errors_of r = [JStr ''HTTP 500: boom''])"
proof -
  have h: "0 < lc_batch_size (demo_client 2)" by (simp add: demo_client_def)
  from send_logs_partial_failure[OF h, of "demo_env demo_outcomes" "demo_world demo_entries" "[0, 1, 2]"]
  obtain w' r where
    A: "send_logs (demo_env demo_outcomes) (demo_client 2) (demo_world demo_entries) [0, 1, 2] = (w', Inr r)" and
    B: "length (requests w') = length (requests (demo_world demo_entries)) + n_batches (demo_client 2) [0, 1, 2]" and
    C: "map_of r ''sent'' = Some (JInt (int (sum_list (map
        (\<lambda>k. if batch_failed (http (demo_env demo_outcomes) (length (requests (demo_world demo_entries)) + k))
             then 0 else length (batch_no (demo_client 2) [0, 1, 2] k))
        [0..<n_batches (demo_client 2) [0, 1, 2]]))))" and
    D: "errors_of r = map (\<lambda>k. JStr (batch_error (http (demo_env demo_outcomes) (length (requests (demo_world demo_entries)) + k))))
        (filter (\<lambda>k. batch_failed (http (demo_env demo_outcomes) (length (requests (demo_world demo_entries)) + k)))
           [0..<n_batches (demo_client 2) [0, 1, 2]])"
    by blast
  have nb: "n_batches (demo_client 2) [0, 1, 2] = 2" by (simp add: n_batches_def demo_client_def)
  have B': "length (requests w') = 2" using B unfolding nb by (simp add: demo_world_def)
  have u: "[0..<2::nat] = [0, 1]" by (simp add: numeral_2_eq_2)
  have C': "map_of r ''sent'' = Some (JInt 2)"
    unfolding C nb u by (simp add: spec_defs demo_defs)
  have D': "errors_of r = [JStr ''HTTP 500: boom'']"
    unfolding D nb u by (simp add: spec_defs demo_defs str_int_def str_nat.simps digit_char_def)
  show ?thesis using h A B' C' D' by blast
qed

text \<open>
  The claim C1 as stated fails for a response that is not 2xx and not 4xx or 5xx:
  with status 304 the batch counts as sent and no error is recorded.
\<close>

theorem send_logs_304_counterexample:
  "http (demo_env (\<lambda>k. demo_response 304 '''')) 0 = demo_response 304 '''' \<and>
   snd (send_logs (demo_env (\<lambda>k. demo_response 304 '''')) (demo_client 100) (demo_world demo_entries) [0, 1, 2])
     = Inr [(''sent'', JInt 3), (''total'', JInt 3)]"
  by (simp add: eval_defs demo_defs)

text \<open>
  Claim C10, as the code has it. For a positive batch size, after \<^verbatim>\<open>send_logs\<close> returns, every
  dictionary the caller's list refers to has a \<^verbatim>\<open>timestamp\<close> key, whatever the
  outcomes of the requests were; the dictionaries are changed in place (the heap is
  updated at the caller's own references), and a dictionary changes only by gaining
  that key.
\<close>

theorem send_logs_stamps_in_place:
  assumes "0 < lc_batch_size self"
  shows "\<exists>w' r. send_logs e self w les = (w', Inr r) \<and>
     (\<forall>a\<in>set les. map_of (heap w' a) ''timestamp'' \<noteq> None) \<and>
     (\<forall>a. heap w' a = heap w a \<or> (a \<in> set les \<and> map_of (heap w a) ''timestamp'' = None \<and>
           (\<exists>t. heap w' a = AList.update ''timestamp'' (JInt t) (heap w a))))"
proof -
  define S where "S = nat (lc_batch_size self)"
  have S: "0 < S" "lc_batch_size self = int S" using assms by (simp_all add: S_def)
  obtain w' ts' errs' where L: "loop_state e self w les (n_batches self les) = (w', ts', errs')"
    by (metis prod_cases3)
  have idx: "map (\<lambda>j. j * S) [0..<n_batches self les] = range_from 0 (length les) S"
    using range_from_upt[OF S(1), of 0 "length les"] by (simp add: n_batches_def S_def)
  have fold: "fold (send_batch e self les) (range_from 0 (length les) S) (w, 0, []) = (w', ts', errs')"
    using L unfolding loop_state_def S_def[symmetric] idx .
  note H = fold_send_batch_heap[OF fold]
  have 1: "map_of (heap w' a) ''timestamp'' \<noteq> None" if "a \<in> set les" for a
    using H[of a] batches_cover[OF S(1) that S(2)] by blast
  have 2: "heap w' a = heap w a \<or> (a \<in> set les \<and> map_of (heap w a) ''timestamp'' = None \<and>
           (\<exists>t. heap w' a = AList.update ''timestamp'' (JInt t) (heap w a)))" for a
  proof (cases "a \<in> set les \<and> map_of (heap w a) ''timestamp'' = None")
    case True
    then show ?thesis using H[of a] by blast
  next
    case False
    have "a \<notin> set les \<Longrightarrow> \<forall>i\<in>set (range_from 0 (length les) S). a \<notin> set (batch_at self les i)"
      by (auto simp: batch_at_def dest: in_set_takeD in_set_dropD)
    then show ?thesis using False H[of a] by blast
  qed
  show ?thesis
    using 1 2 by (simp add: send_logs_loop[OF assms] L split: prod.splits)
qed

theorem send_logs_stamps_in_place_witness:
  "0 < lc_batch_size (demo_client 2) \<and>
   (\<exists>w' r. send_logs (demo_env demo_outcomes) (demo_client 2) (demo_world demo_entries) [0, 1, 2] = (w', Inr r) \<and>
      map_of (heap w' 0) ''timestamp'' \<noteq> None \<and> map_of (heap w' 1) ''timestamp'' \<noteq> None \<and>
      map_of (heap w' 2) ''timestamp'' \<noteq> None)"
proof -
  have h: "0 < lc_batch_size (demo_client 2)" by (simp add: demo_client_def)
  show ?thesis
    using h send_logs_stamps_in_place[OF h, of "demo_env demo_outcomes" "demo_world demo_entries" "[0, 1, 2]"]
    by auto
qed

text \<open>
  The claim C10 as stated fails for a negative batch size: the range of the loop is
  empty, so \<^verbatim>\<open>send_logs\<close> returns without a request and without stamping any entry.
\<close>

theorem send_logs_negative_batch_counterexample:
  "snd (send_logs (demo_env demo_outcomes) (demo_client (- 1)) (demo_world demo_entries) [0, 1, 2])
     = Inr [(''sent'', JInt 0), (''total'', JInt 3)] \<and>
   map_of (heap (fst (send_logs (demo_env demo_outcomes) (demo_client (- 1)) (demo_world demo_entries)
                        [0, 1, 2])) 0) ''timestamp'' = None"
  by (simp add: send_logs_def py_range_def demo_defs)

subsection \<open>Stamping, batch by batch\<close>

lemma loop_state_Suc:
  "loop_state e self w les (Suc k) =
     send_batch e self les (k * nat (lc_batch_size self)) (loop_state e self w les k)"
  by (simp add: loop_state_def)

lemma loop_state_split:
  "k \<le> m \<Longrightarrow> loop_state e self w les m =
     fold (send_batch e self les) (map (\<lambda>j. j * nat (lc_batch_size self)) [k..<m]) (loop_state e self w les k)"
proof -
  assume "k \<le> m"
  then have "[0..<m] = [0..<k] @ [k..<m]"
    by (metis le_add_diff_inverse upt_add_eq_append zero_le)
  then show ?thesis by (simp add: loop_state_def)
qed

lemma send_batch_request:
  "send_batch e self les i (w, ts, errs) = (w', ts', errs') \<Longrightarrow>
     \<exists>rq. requests w' = requests w @ [rq] \<and>
          req_data rq = JsonBody (JArr (map (\<lambda>a. JObj (heap w' a)) (batch_at self les i))) \<and>
          req_url rq = lc_ingest_url self"
  by (auto simp: read_time_ms_def post_def batch_at_def Let_def split: http_outcome.splits option.splits)

lemma fold_send_batch_requests:
  "fold (send_batch e self les) idxs (w, ts, errs) = (w', ts', errs') \<Longrightarrow>
     take (length (requests w)) (requests w') = requests w \<and> length (requests w) \<le> length (requests w')"
proof (induction idxs arbitrary: w ts errs)
  case Nil
  then show ?case by simp
next
  case (Cons i idxs)
  obtain w1 ts1 errs1 where step: "send_batch e self les i (w, ts, errs) = (w1, ts1, errs1)"
    by (metis prod_cases3)
  have rest: "fold (send_batch e self les) idxs (w1, ts1, errs1) = (w', ts', errs')"
    using Cons.prems step by simp
  from send_batch_request[OF step] obtain rq where rq: "requests w1 = requests w @ [rq]" by blast
  note IH = Cons.IH[OF rest]
  have "take (length (requests w)) (requests w') = take (length (requests w)) (take (length (requests w1)) (requests w'))"
    using rq by (simp add: min_def)
  also have "\<dots> = requests w" using IH rq by simp
  finally show ?case using IH rq by simp
qed

text \<open>
  Claim C3. In a call of \<^verbatim>\<open>send_logs\<close> with a positive batch size, take the
  \<open>k\<close>-th batch and an entry \<open>a\<close> of it, and let \<open>wk\<close> be the world when the loop
  enters its \<open>k\<close>-th iteration. The clock has then been read \<open>k\<close> times, and it is read
  once for each batch. If the entry has a \<^verbatim>\<open>timestamp\<close> at that moment, it is left as it
  is; otherwise it gets the key with the \<open>k\<close>-th clock value, the same value for every
  such entry of the batch. The \<open>k\<close>-th request carries the entries of the batch as
  stamped.
\<close>

theorem send_logs_stamping:
  assumes "0 < lc_batch_size self" "k < n_batches self les" "a \<in> set (batch_no self les k)"
  shows "let wk = fst (loop_state e self w les k);
             w' = fst (send_logs e self w les);
             t = time_ms e (time_reads w + k)
         in time_reads wk = time_reads w + k \<and>
            time_reads w' = time_reads w + n_batches self les \<and>
            heap w' a = (if map_of (heap wk a) ''timestamp'' = None
                         then AList.update ''timestamp'' (JInt t) (heap wk a) else heap wk a) \<and>
            req_data (requests w' ! (length (requests w) + k)) =
              JsonBody (JArr (map (\<lambda>b. JObj (heap w' b)) (batch_no self les k)))"
proof -
  define S where "S = nat (lc_batch_size self)"
  obtain wk tsk ek where K: "loop_state e self w les k = (wk, tsk, ek)" by (metis prod_cases3)
  obtain w1 ts1 e1 where K1: "loop_state e self w les (Suc k) = (w1, ts1, e1)" by (metis prod_cases3)
  obtain w' ts' errs' where L: "loop_state e self w les (n_batches self les) = (w', ts', errs')"
    by (metis prod_cases3)
  have step: "send_batch e self les (k * S) (wk, tsk, ek) = (w1, ts1, e1)"
    using K K1 by (simp add: loop_state_Suc S_def)
  have rest: "fold (send_batch e self les) (map (\<lambda>j. j * S) [Suc k..<n_batches self les]) (w1, ts1, e1)
      = (w', ts', errs')"
    using loop_state_split[of "Suc k" "n_batches self les" e self w les] assms(2) K1 L
    by (simp add: S_def)
  have fin: "fst (send_logs e self w les) = w'"
    by (simp add: send_logs_loop[OF assms(1)] L)
  have tk: "time_reads wk = time_reads w + k" by (rule loop_state_facts(2)[OF K])
  have rk: "length (requests wk) = length (requests w) + k" by (rule loop_state_facts(1)[OF K])
  have tn: "time_reads w' = time_reads w + n_batches self les" by (rule loop_state_facts(2)[OF L])
  note W = send_batch_world[OF step]
  have h1: "heap w1 b = (if b \<in> set (batch_no self les k) \<and> map_of (heap wk b) ''timestamp'' = None
      then AList.update ''timestamp'' (JInt (time_ms e (time_reads w + k))) (heap wk b) else heap wk b)" for b
    using W tk by (simp add: stamp_entries_apply batch_no_def S_def)
  have stamped: "map_of (heap w1 b) ''timestamp'' \<noteq> None" if "b \<in> set (batch_no self les k)" for b
    using h1[of b] that by (auto simp: update_conv')
  have keep: "heap w' b = heap w1 b" if "b \<in> set (batch_no self les k)" for b
    using fold_send_batch_heap[OF rest, of b] stamped[OF that] by blast
  from send_batch_request[OF step] obtain rq where
    rq: "requests w1 = requests wk @ [rq]"
        "req_data rq = JsonBody (JArr (map (\<lambda>a. JObj (heap w1 a)) (batch_at self les (k * S))))"
    by blast
  have pre: "take (length (requests w1)) (requests w') = requests w1" "length (requests w1) \<le> length (requests w')"
    using fold_send_batch_requests[OF rest] by simp_all
  have "requests w' ! (length (requests w) + k) = requests w1 ! (length (requests w) + k)"
    using pre rq(1) rk by (metis length_append_singleton lessI nth_take)
  also have "\<dots> = rq" using rq(1) rk by (simp add: nth_append)
  finally have nth: "requests w' ! (length (requests w) + k) = rq" .
  have data: "req_data rq = JsonBody (JArr (map (\<lambda>b. JObj (heap w' b)) (batch_no self les k)))"
    using rq(2) keep by (simp add: batch_no_def S_def cong: map_cong)
  show ?thesis
    using tk tn h1[of a] keep[OF assms(3)] assms(3) nth data by (simp add: K fin Let_def)
qed

theorem send_logs_stamping_witness:
  "0 < lc_batch_size (demo_client 2) \<and> 1 < n_batches (demo_client 2) [0, 1, 2] \<and>
   2 \<in> set (batch_no (demo_client 2) [0, 1, 2] 1) \<and>
   heap (fst (send_logs (demo_env demo_outcomes) (demo_client 2) (demo_world demo_entries) [0, 1, 2])) 2
     = [(''content'', JStr ''select 3''), (''severity'', JStr ''WARN''), (''timestamp'', JInt 1700000000001)]"
proof -
  have h: "0 < lc_batch_size (demo_client 2)" by (simp add: demo_client_def)
  have k: "1 < n_batches (demo_client 2) [0, 1, 2]" by (simp add: n_batches_def demo_client_def)
  have a: "2 \<in> set (batch_no (demo_client 2) [0, 1, 2] 1)"
    by (simp add: batch_no_def batch_at_def demo_client_def)
  have wk: "heap (fst (loop_state (demo_env demo_outcomes) (demo_client 2) (demo_world demo_entries) [0, 1, 2] 1)) 2
      = [(''content'', JStr ''select 3''), (''severity'', JStr ''WARN'')]"
    by (simp add: loop_state_def eval_defs demo_defs demo_outcomes_def)
  have t: "time_ms (demo_env demo_outcomes) (time_reads (demo_world demo_entries) + 1) = 1700000000001"
    by (simp add: demo_defs)
  from send_logs_stamping[OF h k a, of "demo_env demo_outcomes" "demo_world demo_entries"]
  have "heap (fst (send_logs (demo_env demo_outcomes) (demo_client 2) (demo_world demo_entries) [0, 1, 2])) 2
      = [(''content'', JStr ''select 3''), (''severity'', JStr ''WARN''), (''timestamp'', JInt 1700000000001)]"
    unfolding Let_def wk t by simp
  then show ?thesis using h k a by blast
qed


section \<open>The handler\<close>

subsection \<open>Log entries and their severity\<close>

lemma append_entries_spec:
  "append_entries db host qs (w, acc) = (w', les) \<Longrightarrow>
     les = acc @ [next_addr w..<next_addr w + length qs] \<and>
     next_addr w' = next_addr w + length qs \<and>
     (\<forall>i<length qs. heap w' (next_addr w + i) = make_log_entry db host (qs ! i)) \<and>
     (\<forall>a<next_addr w. heap w' a = heap w a) \<and>
     time_reads w' = time_reads w \<and> utc_reads w' = utc_reads w \<and>
     secret_fetches w' = secret_fetches w \<and> db_queries w' = db_queries w \<and> requests w' = requests w"
proof (induction qs arbitrary: w acc)
  case Nil
  then show ?case by simp
next
  case (Cons q qs)
  let ?w1 = "w\<lparr>heap := (heap w)(next_addr w := make_log_entry db host q), next_addr := Suc (next_addr w)\<rparr>"
  have rest: "append_entries db host qs (?w1, acc @ [next_addr w]) = (w', les)"
    using Cons.prems by simp
  note IH = Cons.IH[OF rest]
  have "[next_addr w..<next_addr w + length (q # qs)]
      = next_addr w # [Suc (next_addr w)..<Suc (next_addr w) + length qs]"
    by (subst upt_rec) simp
  then have les: "les = acc @ [next_addr w..<next_addr w + length (q # qs)]"
    using IH by simp
  have low: "\<forall>a<Suc (next_addr w). heap w' a = heap ?w1 a" using IH by simp
  have at: "\<forall>i<length (q # qs). heap w' (next_addr w + i) = make_log_entry db host ((q # qs) ! i)"
  proof (intro allI impI)
    fix i assume i: "i < length (q # qs)"
    show "heap w' (next_addr w + i) = make_log_entry db host ((q # qs) ! i)"
    proof (cases i)
      case 0
      then show ?thesis using low by simp
    next
      case (Suc j)
      then have "j < length qs" using i by simp
      then have "heap w' (next_addr ?w1 + j) = make_log_entry db host (qs ! j)" using IH by blast
      then show ?thesis using Suc by simp
    qed
  qed
  have frame: "\<forall>a<next_addr w. heap w' a = heap w a" using low by simp
  show ?case using les at frame IH by simp
qed

text \<open>
  Claim C5. The handler derives one log entry from each collected row, and the
  severity of the entry is ERROR when the row's \<^verbatim>\<open>duration_seconds\<close> is above 300
  and WARN otherwise, so WARN for every duration from the threshold up to 300.
\<close>

theorem log_entry_severity:
  assumes "append_entries db host qs (w, []) = (w', les)" and "i < length qs"
  shows "length les = length qs \<and>
         heap w' (les ! i) = make_log_entry db host (qs ! i) \<and>
         map_of (heap w' (les ! i)) ''severity'' =
           Some (JStr (if 300 < duration_seconds (qs ! i) then ''ERROR'' else ''WARN''))"
proof -
  note S = append_entries_spec[OF assms(1)]
  have "les ! i = next_addr w + i" using S assms(2) by simp
  moreover have "heap w' (next_addr w + i) = make_log_entry db host (qs ! i)" using S assms(2) by blast
  ultimately show ?thesis using S by (simp add: make_log_entry_def)
qed

theorem log_entry_severity_witness:
  "append_entries (Some ''orders'') ''mydb'' demo_rows (demo_world [], []) =
     (fst (append_entries (Some ''orders'') ''mydb'' demo_rows (demo_world [], [])), [0, 1]) \<and>
   (1::nat) < length demo_rows \<and>
   map_of (heap (fst (append_entries (Some ''orders'') ''mydb'' demo_rows (demo_world [], []))) 0) ''severity''
     = Some (JStr ''WARN'') \<and>
   map_of (heap (fst (append_entries (Some ''orders'') ''mydb'' demo_rows (demo_world [], []))) 1) ''severity''
     = Some (JStr ''ERROR'')"
proof -
  let ?r = "append_entries (Some ''orders'') ''mydb'' demo_rows (demo_world [], [])"
  have a: "?r = (fst ?r, [0, 1])" by (simp add: demo_rows_def demo_world_def)
  have l: "(1::nat) < length demo_rows" "(0::nat) < length demo_rows" by (simp_all add: demo_rows_def)
  have d: "duration_seconds (demo_rows ! 0) = 120" "duration_seconds (demo_rows ! 1) = 400"
    by (simp_all add: demo_rows_def demo_row_def)
  have s0: "map_of (heap (fst ?r) ([0, 1] ! 0)) ''severity''
      = Some (JStr (if 300 < duration_seconds (demo_rows ! 0) then ''ERROR'' else ''WARN''))"
    using log_entry_severity[OF a l(2)] by (elim conjE)
  have s1: "map_of (heap (fst ?r) ([0, 1] ! 1)) ''severity''
      = Some (JStr (if 300 < duration_seconds (demo_rows ! 1) then ''ERROR'' else ''WARN''))"
    using log_entry_severity[OF a l(1)] by (elim conjE)
  have s0': "map_of (heap (fst ?r) 0) ''severity'' = Some (JStr ''WARN'')"
    using s0 unfolding d by simp
  have s1': "map_of (heap (fst ?r) 1) ''severity'' = Some (JStr ''ERROR'')"
    using s1 unfolding d by simp
  show ?thesis using a l(1) s0' s1' by blast
qed

subsection \<open>The result of a successful invocation\<close>

lemma then_do_Inr:
  "then_do m f = (w', Inr b) \<Longrightarrow> \<exists>w1 x. m = (w1, Inr x) \<and> f w1 x = (w', Inr b)"
  by (auto simp: then_do_def split: prod.splits sum.splits)

lemma build_metrics_length:
  "build_metrics db host queries = Inr metrics \<Longrightarrow> length metrics = (if queries = [] then 1 else 4)"
  by (auto simp: build_metrics_def Let_def split: sum.splits if_splits)

lemma run_collection_success:
  assumes "run_collection e w s = (w', Inr b)"
  shows "\<exists>config queries hostname metrics t.
           get_config e = Inr config \<and> database e = Inr queries \<and>
           build_metrics (aurora_database config) hostname queries = Inr metrics \<and>
           b = success_body (length queries) (length metrics) t"
  using assms unfolding run_collection_def
  apply -
  apply (drule then_do_Inr, elim exE conjE)+
  apply (auto simp: get_long_running_queries_def split: prod.splits dest!: then_do_Inr)
  done

lemma demo_handler_result:
  "snd (lambda_handler (handler_env demo_environ demo_backend) (demo_world [])) =
     \<lparr>statusCode = 200,
      body = JObj [(''message'', JStr ''Collection completed successfully''),
                   (''queries_found'', JInt 2), (''metrics_sent'', JInt 4), (''logs_sent'', JInt 2),
                   (''execution_time_ms'', JFloat (Finite False 8796093022208000 (- 45)))]\<rparr>"
  by (simp add: handler_defs int_defs float_defs handler_demo_defs eval_defs demo_defs demo_backend_def)

lemma demo_handler_requests:
  "map req_data (take 1 (requests (fst (lambda_handler (handler_env demo_environ demo_backend) (demo_world []))))) =
     [TextBody (join [CHR 0x0A]
        [''custom.db.long_queries.count,db.type=postgres,db.name=orders,host=mydb 2'',
         ''custom.db.long_queries.max_duration_seconds,db.type=postgres,db.name=orders,host=mydb 400'',
         ''custom.db.long_queries.avg_duration_seconds,db.type=postgres,db.name=orders,host=mydb 260.00'',
         ''custom.db.long_queries.total_duration_seconds,db.type=postgres,db.name=orders,host=mydb 520''])]"
  by (simp add: handler_defs int_defs float_defs handler_demo_defs eval_defs demo_defs demo_backend_def)

text \<open>
  Claim C9. When the invocation succeeds (status 200), the body reports
  \<^verbatim>\<open>queries_found\<close> and \<^verbatim>\<open>logs_sent\<close> both equal to the number of collected
  rows, and \<^verbatim>\<open>metrics_sent\<close> equal to the number of metric lines built (one without
  rows, four with rows). Nothing is assumed about the answers of the backend: the
  counts do not depend on them.
\<close>

theorem handler_success_counts:
  assumes "statusCode (snd (lambda_handler e w)) = 200"
  shows "\<exists>config queries hostname metrics.
           database e = Inr queries \<and> get_config e = Inr config \<and>
           build_metrics (aurora_database config) hostname queries = Inr metrics \<and>
           length metrics = (if queries = [] then 1 else 4) \<and>
           body_field (snd (lambda_handler e w)) ''queries_found'' = Some (JInt (int (length queries))) \<and>
           body_field (snd (lambda_handler e w)) ''logs_sent'' = Some (JInt (int (length queries))) \<and>
           body_field (snd (lambda_handler e w)) ''metrics_sent'' = Some (JInt (int (length metrics)))"
proof -
  obtain w0 s where r: "read_utcnow e w = (w0, s)" by (metis surj_pair)
  obtain w' res where rc: "run_collection e w0 s = (w', res)" by (metis surj_pair)
  show ?thesis
  proof (cases res)
    case (Inl err)
    then have "statusCode (snd (lambda_handler e w)) = 500"
      by (simp add: lambda_handler_def r rc)
    then show ?thesis using assms by simp
  next
    case (Inr b)
    then have res: "snd (lambda_handler e w) = \<lparr>statusCode = 200, body = b\<rparr>"
      by (simp add: lambda_handler_def r rc)
    from run_collection_success[OF rc[unfolded Inr]] obtain config queries hostname metrics t where
      F: "get_config e = Inr config" "database e = Inr queries"
         "build_metrics (aurora_database config) hostname queries = Inr metrics"
         "b = success_body (length queries) (length metrics) t"
      by blast
    show ?thesis
      using F build_metrics_length[OF F(3)]
      by (intro exI[of _ config] exI[of _ queries] exI[of _ hostname] exI[of _ metrics])
         (simp add: res body_field_def success_body_def)
  qed
qed

theorem handler_success_counts_witness:
  "statusCode (snd (lambda_handler (handler_env demo_environ demo_backend) (demo_world []))) = 200 \<and>
   batch_failed (http (handler_env demo_environ demo_backend) 1) \<and>
   body_field (snd (lambda_handler (handler_env demo_environ demo_backend) (demo_world []))) ''queries_found''
     = Some (JInt 2) \<and>
   body_field (snd (lambda_handler (handler_env demo_environ demo_backend) (demo_world []))) ''logs_sent''
     = Some (JInt 2) \<and>
   body_field (snd (lambda_handler (handler_env demo_environ demo_backend) (demo_world []))) ''metrics_sent''
     = Some (JInt 4)"
proof -
  let ?e = "handler_env demo_environ demo_backend"
  let ?res = "snd (lambda_handler ?e (demo_world []))"
  have h: "statusCode ?res = 200" by (simp add: demo_handler_result)
  have f: "batch_failed (http ?e 1)"
    by (simp add: handler_env_def demo_backend_def demo_response_def batch_failed_def)
  from handler_success_counts[OF h] obtain config queries hostname and metrics :: "string list" where
    F: "database ?e = Inr queries"
       "length metrics = (if queries = [] then 1 else 4)"
       "body_field ?res ''queries_found'' = Some (JInt (int (length queries)))"
       "body_field ?res ''logs_sent'' = Some (JInt (int (length queries)))"
       "body_field ?res ''metrics_sent'' = Some (JInt (int (length metrics)))"
    by blast
  have q: "queries = demo_rows" using F(1) by (simp add: handler_env_def)
  have n: "length queries = 2" "length metrics = 4" using F(2) unfolding q by (simp_all add: demo_rows_def)
  show ?thesis using h f F(3,4,5) unfolding n by simp
qed

subsection \<open>A rejected metrics request\<close>

lemma raise_for_status_error:
  "400 \<le> status_code r \<Longrightarrow> status_code r < 600 \<Longrightarrow>
     raise_for_status r = Some (HTTPError (status_code r) (resp_text r) (http_error_msg r))"
  by (auto simp: raise_for_status_def http_error_msg_def)

lemma get_secret_requests:
  "get_secret e w a = (w1, r) \<Longrightarrow> requests w1 = requests w \<and> db_queries w1 = db_queries w"
  by (auto simp: get_secret_def Let_def split: sum.splits option.splits py_error.splits if_splits)

lemma build_metrics_nonempty: "build_metrics db host qs = Inr ms \<Longrightarrow> ms \<noteq> []"
  by (auto simp: build_metrics_def Let_def split: sum.splits if_splits)

lemma send_metrics_fails:
  assumes "metrics \<noteq> []" "http e (length (requests w)) = Response r"
    "400 \<le> status_code r" "status_code r < 600"
  shows "\<exists>w1. send_metrics e self w metrics =
           (w1, Inl (HTTPError (status_code r) (resp_text r) (http_error_msg r))) \<and>
         length (requests w1) = Suc (length (requests w))"
  using assms raise_for_status_error[OF assms(3,4)]
  by (simp add: send_metrics_def post_def)

lemma run_collection_http_error:
  assumes "run_collection e w s = (w', res)" "requests w' \<noteq> requests w"
    "http e (length (requests w)) = Response r" "400 \<le> status_code r" "status_code r < 600"
  shows "res = Inl (HTTPError (status_code r) (resp_text r) (http_error_msg r)) \<and>
         length (requests w') = Suc (length (requests w))"
  using assms raise_for_status_error[OF assms(4,5)]
  unfolding run_collection_def then_do_def
  by (auto simp: get_long_running_queries_def send_metrics_def post_def
       split: sum.splits prod.splits option.splits
       dest!: get_secret_requests build_metrics_nonempty)

text \<open>
  Claim C6, as the code has it. When the metrics endpoint answers with a status code
  from 400 to 599, \<^verbatim>\<open>send_metrics\<close> raises for every non-empty list of lines, after
  one request. In the handler, an invocation that issues a request at all (the first
  request is the one of \<^verbatim>\<open>send_metrics\<close>) then ends with status 500, the message of
  the error in the body, and that one request only: nothing is retried.
\<close>

theorem metrics_http_error_is_fatal:
  assumes "http e (length (requests w)) = Response r" and "400 \<le> status_code r" and "status_code r < 600"
  shows "(\<forall>self metrics. metrics \<noteq> [] \<longrightarrow>
            (\<exists>w1. send_metrics e self w metrics =
                    (w1, Inl (HTTPError (status_code r) (resp_text r) (http_error_msg r))) \<and>
                  length (requests w1) = Suc (length (requests w)))) \<and>
         (requests (fst (lambda_handler e w)) \<noteq> requests w \<longrightarrow>
            snd (lambda_handler e w) =
              \<lparr>statusCode = 500, body = JObj [(''error'', JStr (http_error_msg r))]\<rparr> \<and>
            length (requests (fst (lambda_handler e w))) = Suc (length (requests w)))"
proof (intro conjI allI impI)
  fix self and metrics :: "string list"
  assume "metrics \<noteq> []"
  then show "\<exists>w1. send_metrics e self w metrics =
                    (w1, Inl (HTTPError (status_code r) (resp_text r) (http_error_msg r))) \<and>
                  length (requests w1) = Suc (length (requests w))"
    using send_metrics_fails[OF _ assms] by blast
next
  assume ch: "requests (fst (lambda_handler e w)) \<noteq> requests w"
  obtain w0 s where r0: "read_utcnow e w = (w0, s)" by (metis surj_pair)
  obtain w' res where rc: "run_collection e w0 s = (w', res)" by (metis surj_pair)
  have w0: "requests w0 = requests w" using r0 by (auto simp: read_utcnow_def)
  have fst: "fst (lambda_handler e w) = w'"
    by (simp add: lambda_handler_def r0 rc split: sum.splits)
  have "requests w' \<noteq> requests w0" using ch fst w0 by simp
  from run_collection_http_error[OF rc this] assms w0
  have res: "res = Inl (HTTPError (status_code r) (resp_text r) (http_error_msg r))"
    and len: "length (requests w') = Suc (length (requests w))" by simp_all
  show "snd (lambda_handler e w) = \<lparr>statusCode = 500, body = JObj [(''error'', JStr (http_error_msg r))]\<rparr>"
    by (simp add: lambda_handler_def r0 rc res)
  show "length (requests (fst (lambda_handler e w))) = Suc (length (requests w))"
    using len fst by simp
qed

lemma demo_unavailable_requests:
  "length (requests (fst (lambda_handler (handler_env demo_environ demo_unavailable) (demo_world [])))) = 1"
  by (simp add: handler_defs int_defs float_defs handler_demo_defs eval_defs demo_defs demo_unavailable_def)

theorem metrics_http_error_is_fatal_witness:
  "http (handler_env demo_environ demo_unavailable) (length (requests (demo_world []))) = demo_unavailable 0 \<and>
   snd (send_metrics (handler_env demo_environ demo_unavailable) demo_mclient (demo_world []) [''m 1'']) =
     Inl (HTTPError 503 ''busy''
       ''503 Server Error: Service Unavailable for url: https://abc.live.dynatrace.com/api/v2/metrics/ingest'') \<and>
   snd (lambda_handler (handler_env demo_environ demo_unavailable) (demo_world [])) =
     \<lparr>statusCode = 500, body = JObj [(''error'', JStr
        ''503 Server Error: Service Unavailable for url: https://abc.live.dynatrace.com/api/v2/metrics/ingest'')]\<rparr> \<and>
   length (requests (fst (lambda_handler (handler_env demo_environ demo_unavailable) (demo_world [])))) = 1"
proof -
  let ?e = "handler_env demo_environ demo_unavailable"
  let ?r = "\<lparr>status_code = 503, reason = ''Service Unavailable'',
               resp_url = ''https://abc.live.dynatrace.com/api/v2/metrics/ingest'', resp_text = ''busy''\<rparr>"
  have h: "http ?e (length (requests (demo_world []))) = Response ?r"
    by (simp add: handler_env_def demo_unavailable_def)
  have m: "http_error_msg ?r =
      ''503 Server Error: Service Unavailable for url: https://abc.live.dynatrace.com/api/v2/metrics/ingest''"
    by (simp add: http_error_msg_def str_int_def str_nat.simps digit_char_def)
  have ch: "requests (fst (lambda_handler ?e (demo_world []))) \<noteq> requests (demo_world [])"
    using demo_unavailable_requests by (auto simp: demo_world_def)
  have T': "(\<forall>self metrics. metrics \<noteq> [] \<longrightarrow>
            (\<exists>w1. send_metrics ?e self (demo_world []) metrics =
                    (w1, Inl (HTTPError (status_code ?r) (resp_text ?r) (http_error_msg ?r))) \<and>
                  length (requests w1) = Suc (length (requests (demo_world []))))) \<and>
         (requests (fst (lambda_handler ?e (demo_world []))) \<noteq> requests (demo_world []) \<longrightarrow>
            snd (lambda_handler ?e (demo_world [])) =
              \<lparr>statusCode = 500, body = JObj [(''error'', JStr (http_error_msg ?r))]\<rparr> \<and>
            length (requests (fst (lambda_handler ?e (demo_world [])))) = Suc (length (requests (demo_world []))))"
    by (rule metrics_http_error_is_fatal[OF h]) simp_all
  have a: "snd (send_metrics ?e demo_mclient (demo_world []) [''m 1'']) =
      Inl (HTTPError 503 ''busy''
       ''503 Server Error: Service Unavailable for url: https://abc.live.dynatrace.com/api/v2/metrics/ingest'')"
  proof -
    from T' have "\<exists>w1. send_metrics ?e demo_mclient (demo_world []) [''m 1''] =
                    (w1, Inl (HTTPError (status_code ?r) (resp_text ?r) (http_error_msg ?r)))"
      by (metis list.distinct(1))
    then show ?thesis unfolding m by auto
  qed
  have b: "snd (lambda_handler ?e (demo_world [])) =
      \<lparr>statusCode = 500, body = JObj [(''error'', JStr (http_error_msg ?r))]\<rparr>"
    using T' ch by blast
  show ?thesis
    using h a b[unfolded m] demo_unavailable_requests by (simp add: demo_unavailable_def)
qed

text \<open>
  The claim C6 as stated fails at a response that is not 2xx and not 4xx or 5xx: with
  status 304 and an empty body \<^verbatim>\<open>send_metrics\<close> returns and the invocation ends
  with status 200.
\<close>

theorem metrics_not_modified_counterexample:
  "http (handler_env demo_environ demo_not_modified) 0 = demo_response 304 '''' \<and>
   snd (send_metrics (handler_env demo_environ demo_not_modified) demo_mclient (demo_world []) [''m 1'']) =
     Inr (JObj []) \<and>
   statusCode (snd (lambda_handler (handler_env demo_environ demo_not_modified) (demo_world []))) = 200"
  by (simp add: handler_defs int_defs float_defs handler_demo_defs eval_defs demo_defs demo_not_modified_def
        demo_mclient_def)

subsection \<open>Missing configuration\<close>

lemma starts_with_append: "starts_with k (k @ s)"
  by (induction k) auto

lemma contains_self_append: "contains k (k @ s)"
proof (cases "k @ s")
  case Nil
  then show ?thesis by simp
next
  case (Cons a l)
  have "starts_with k (k @ s)" by (rule starts_with_append)
  then show ?thesis unfolding Cons by simp
qed

lemma contains_append_left: "contains k s \<Longrightarrow> contains k (p @ s)"
  by (induction p) auto

lemma contains_given: "contains k (p @ k @ s)"
  by (rule contains_append_left) (rule contains_self_append)

lemma contains_join: "k \<in> set xs \<Longrightarrow> contains k (join sep xs)"
proof (induction sep xs rule: join.induct)
  case (1 sep)
  then show ?case by simp
next
  case (2 sep x)
  then show ?case using contains_self_append[of x "[]"] by simp
next
  case (3 sep x y ys)
  show ?case
  proof (cases "k = x")
    case True
    then show ?thesis using contains_self_append[of x] by simp
  next
    case False
    then have "contains k (join sep (y # ys))" using 3 by simp
    then have "contains k ((x @ sep) @ join sep (y # ys))" by (rule contains_append_left)
    then show ?thesis by simp
  qed
qed

lemma filter_paired:
  "map fst (filter (\<lambda>(name, v). P v) (map (\<lambda>k. (k, f k)) ks)) = filter (\<lambda>k. P (f k)) ks"
  by (induction ks) auto

lemma missing_keys_required:
  "map fst (filter (\<lambda>(name, v). falsy v)
     (required \<lparr>aurora_host = environ e ''AURORA_HOST'', aurora_port = p,
                aurora_database = environ e ''AURORA_DATABASE'', aurora_user = environ e ''AURORA_USER'',
                aurora_password_secret_arn = environ e ''AURORA_PASSWORD_SECRET_ARN'',
                dynatrace_environment_url = environ e ''DT_ENVIRONMENT_URL'',
                dynatrace_api_token_secret_arn = environ e ''DT_API_TOKEN_SECRET_ARN'',
                threshold_seconds = t\<rparr>)) = missing_keys e"
proof -
  have "required \<lparr>aurora_host = environ e ''AURORA_HOST'', aurora_port = p,
                aurora_database = environ e ''AURORA_DATABASE'', aurora_user = environ e ''AURORA_USER'',
                aurora_password_secret_arn = environ e ''AURORA_PASSWORD_SECRET_ARN'',
                dynatrace_environment_url = environ e ''DT_ENVIRONMENT_URL'',
                dynatrace_api_token_secret_arn = environ e ''DT_API_TOKEN_SECRET_ARN'',
                threshold_seconds = t\<rparr> = map (\<lambda>k. (k, environ e k)) required_names"
    by (simp add: required_def required_names_def)
  then show ?thesis unfolding missing_keys_def by (simp only: filter_paired)
qed

lemma get_config_missing:
  assumes "missing_keys e \<noteq> []"
  shows "get_config e =
     (case py_int (environ_get e ''AURORA_PORT'' ''5432'') of
        Inl err \<Rightarrow> Inl err
      | Inr port \<Rightarrow>
          (case py_int (environ_get e ''THRESHOLD_SECONDS'' ''60'') of
             Inl err \<Rightarrow> Inl err
           | Inr threshold \<Rightarrow>
               Inl (ValueError (''Missing required environment variables: '' @ join '', '' (missing_keys e)))))"
  using assms unfolding get_config_def Let_def missing_keys_required
  by (simp split: sum.splits)

lemma lambda_handler_config_error:
  "get_config e = Inl err \<Longrightarrow>
     lambda_handler e w =
       (w\<lparr>utc_reads := Suc (utc_reads w)\<rparr>,
        \<lparr>statusCode = 500, body = JObj [(''error'', JStr (str_exc err))]\<rparr>)"
  by (simp add: lambda_handler_def run_collection_def then_do_def read_utcnow_def)

text \<open>
  Claim C7, as the code has it. When a required variable is unset or empty, the
  invocation ends with status 500 and the message of the error that \<^verbatim>\<open>get_config\<close>
  raised, and the world is the initial one but for the first reading of the clock:
  no secret was fetched, no query run, no request issued. When moreover
  \<^verbatim>\<open>AURORA_PORT\<close> and \<^verbatim>\<open>THRESHOLD_SECONDS\<close> are unset or integer literals, the
  message is the list of the missing variables and names every one of them.
\<close>

theorem missing_config_fails_early:
  assumes "k \<in> set required_names" and "falsy (environ e k)"
  shows "\<exists>err. get_config e = Inl err \<and>
           lambda_handler e w =
             (w\<lparr>utc_reads := Suc (utc_reads w)\<rparr>,
              \<lparr>statusCode = 500, body = JObj [(''error'', JStr (str_exc err))]\<rparr>) \<and>
           ((\<exists>p. py_int (environ_get e ''AURORA_PORT'' ''5432'') = Inr p) \<and>
            (\<exists>t. py_int (environ_get e ''THRESHOLD_SECONDS'' ''60'') = Inr t) \<longrightarrow>
              str_exc err = ''Missing required environment variables: '' @ join '', '' (missing_keys e) \<and>
              (\<forall>k'\<in>set required_names. falsy (environ e k') \<longrightarrow> contains k' (str_exc err)))"
proof -
  have mem: "k \<in> set (missing_keys e)" using assms by (simp add: missing_keys_def)
  then have ne: "missing_keys e \<noteq> []" by auto
  note G = get_config_missing[OF ne]
  obtain err where err: "get_config e = Inl err"
    unfolding G
    by (cases "py_int (environ_get e ''AURORA_PORT'' ''5432'')";
        cases "py_int (environ_get e ''THRESHOLD_SECONDS'' ''60'')"; simp)
  have msg: "str_exc err = ''Missing required environment variables: '' @ join '', '' (missing_keys e)"
    if "py_int (environ_get e ''AURORA_PORT'' ''5432'') = Inr p"
       "py_int (environ_get e ''THRESHOLD_SECONDS'' ''60'') = Inr t" for p t
    using err that unfolding G by auto
  have names: "contains k' (''Missing required environment variables: '' @ join '', '' (missing_keys e))"
    if "k' \<in> set required_names" "falsy (environ e k')" for k'
  proof -
    have "k' \<in> set (missing_keys e)" using that by (simp add: missing_keys_def)
    then show ?thesis by (intro contains_append_left contains_join)
  qed
  have both: "str_exc err = ''Missing required environment variables: '' @ join '', '' (missing_keys e) \<and>
      (\<forall>k'\<in>set required_names. falsy (environ e k') \<longrightarrow> contains k' (str_exc err))"
    if "\<exists>p. py_int (environ_get e ''AURORA_PORT'' ''5432'') = Inr p"
       "\<exists>t. py_int (environ_get e ''THRESHOLD_SECONDS'' ''60'') = Inr t"
  proof -
    from that obtain p t where
      "py_int (environ_get e ''AURORA_PORT'' ''5432'') = Inr p"
      "py_int (environ_get e ''THRESHOLD_SECONDS'' ''60'') = Inr t" by blast
    then have m: "str_exc err = ''Missing required environment variables: '' @ join '', '' (missing_keys e)"
      by (rule msg)
    show ?thesis unfolding m using names by blast
  qed
  show ?thesis
    using err lambda_handler_config_error[OF err, of w] both by blast
qed

theorem missing_config_fails_early_witness:
  "''AURORA_HOST'' \<in> set required_names \<and>
   falsy (environ (handler_env demo_environ_incomplete demo_backend) ''AURORA_HOST'') \<and>
   lambda_handler (handler_env demo_environ_incomplete demo_backend) (demo_world []) =
     ((demo_world [])\<lparr>utc_reads := 1\<rparr>,
      \<lparr>statusCode = 500,
       body = JObj [(''error'', JStr ''Missing required environment variables: AURORA_HOST, DT_ENVIRONMENT_URL'')]\<rparr>) \<and>
   contains ''AURORA_HOST'' ''Missing required environment variables: AURORA_HOST, DT_ENVIRONMENT_URL'' \<and>
   contains ''DT_ENVIRONMENT_URL'' ''Missing required environment variables: AURORA_HOST, DT_ENVIRONMENT_URL''"
proof -
  let ?e = "handler_env demo_environ_incomplete demo_backend"
  have k: "''AURORA_HOST'' \<in> set required_names" "''DT_ENVIRONMENT_URL'' \<in> set required_names"
    by (simp_all add: required_names_def)
  have f: "falsy (environ ?e ''AURORA_HOST'')" "falsy (environ ?e ''DT_ENVIRONMENT_URL'')"
    by (simp_all add: config_defs)
  have p: "\<exists>p. py_int (environ_get ?e ''AURORA_PORT'' ''5432'') = Inr p"
    by (simp add: config_defs int_defs)
  have t: "\<exists>t. py_int (environ_get ?e ''THRESHOLD_SECONDS'' ''60'') = Inr t"
    by (simp add: config_defs int_defs)
  have m: "''Missing required environment variables: '' @ join '', '' (missing_keys ?e)
      = ''Missing required environment variables: AURORA_HOST, DT_ENVIRONMENT_URL''"
    by (simp add: config_defs)
  from missing_config_fails_early[OF k(1) f(1), of "demo_world []"] obtain err where
    E: "lambda_handler ?e (demo_world []) =
          ((demo_world [])\<lparr>utc_reads := Suc (utc_reads (demo_world []))\<rparr>,
           \<lparr>statusCode = 500, body = JObj [(''error'', JStr (str_exc err))]\<rparr>)"
       "str_exc err = ''Missing required environment variables: '' @ join '', '' (missing_keys ?e)"
       "\<forall>k'\<in>set required_names. falsy (environ ?e k') \<longrightarrow> contains k' (str_exc err)"
    using p t by blast
  have c: "contains ''AURORA_HOST'' (str_exc err)" "contains ''DT_ENVIRONMENT_URL'' (str_exc err)"
    using E(3) k f by blast+
  have u: "Suc (utc_reads (demo_world [])) = 1" by (simp add: demo_world_def)
  show ?thesis
    using k(1) f(1) E(1) c unfolding E(2) m u by blast
qed

text \<open>
  The claim C7 as stated fails when \<^verbatim>\<open>AURORA_PORT\<close> is not an integer literal:
  \<^verbatim>\<open>int\<close> raises before the required values are checked, and the message does not
  name the missing \<^verbatim>\<open>AURORA_HOST\<close>.
\<close>

theorem bad_port_counterexample:
  "falsy (environ (handler_env demo_environ_bad_port demo_backend) ''AURORA_HOST'') \<and>
   snd (lambda_handler (handler_env demo_environ_bad_port demo_backend) (demo_world [])) =
      \<lparr>statusCode = 500,
       body = JObj [(''error'', JStr (''invalid literal for int() with base 10: '' @ squote ''abc''))]\<rparr> \<and>
   \<not> contains ''AURORA_HOST'' (''invalid literal for int() with base 10: '' @ squote ''abc'')"
  by (simp add: config_defs int_defs squote_def lambda_handler_def run_collection_def then_do_def
        read_utcnow_def get_config_def Let_def)

subsection \<open>Secret resolution\<close>

lemma get_secret_not_json:
  "secretsmanager e arn = Inr (Some s) \<Longrightarrow> json_loads e s = Inl (JSONDecodeError m) \<Longrightarrow>
     snd (get_secret e w arn) = Inr (JStr s)"
  by (simp add: get_secret_def)

lemma get_secret_object:
  "secretsmanager e arn = Inr (Some s) \<Longrightarrow> json_loads e s = Inr (JObj d) \<Longrightarrow>
     snd (get_secret e w arn) =
       Inr (case map_of d ''password'' of
              Some p \<Rightarrow> if truthy p then p
                        else (case map_of d ''apiToken'' of
                                Some t \<Rightarrow> if truthy t then t else JStr s | None \<Rightarrow> JStr s)
            | None \<Rightarrow> (case map_of d ''apiToken'' of
                         Some t \<Rightarrow> if truthy t then t else JStr s | None \<Rightarrow> JStr s))"
  by (simp add: get_secret_def py_get_def split: option.splits)

lemma get_secret_other_json:
  "secretsmanager e arn = Inr (Some s) \<Longrightarrow> json_loads e s = Inr v \<Longrightarrow> \<forall>d. v \<noteq> JObj d \<Longrightarrow>
     snd (get_secret e w arn) = Inl (AttributeError (no_attribute (type_name v) ''get''))"
  by (cases v) (auto simp: get_secret_def py_get_def)

text \<open>
  Claim C8 at a secret whose text is a JSON number. The value \<^verbatim>\<open>12345\<close> is
  JSON-encoded and has neither field, so the claim gives the raw string; the code calls
  \<^verbatim>\<open>.get\<close> on the decoded integer, which raises \<^verbatim>\<open>AttributeError\<close>, and the
  invocation ends with status 500.
\<close>

theorem get_secret_numeric_raises:
  "secretsmanager numeric_secret_env (Some ''arn:aws:secretsmanager:pw'') = Inr (Some ''12345'') \<and>
   json_loads numeric_secret_env ''12345'' = Inr (JInt 12345) \<and>
   snd (get_secret numeric_secret_env (demo_world []) (Some ''arn:aws:secretsmanager:pw'')) =
     Inl (AttributeError (squote ''int'' @ '' object has no attribute '' @ squote ''get'')) \<and>
   snd (lambda_handler numeric_secret_env (demo_world [])) =
     \<lparr>statusCode = 500,
      body = JObj [(''error'', JStr (squote ''int'' @ '' object has no attribute '' @ squote ''get''))]\<rparr>"
  by (simp add: numeric_secret_env_def handler_defs int_defs handler_demo_defs no_attribute_def Let_def)


end
